theory Spec2Isabelle
  imports Main
begin

section \<open>The marketplace operator's entry point (cmd/manager/main.go)\<close>

text \<open>
  The program is one Go \<^verbatim>\<open>main\<close> function: it parses flags, builds its collaborators
  (metrics server, API configuration, controller manager, lock), and hands three
  callbacks to the leader-election library. Everything it does is an effect on a
  collaborator, so the model is a trace of the calls it makes together with the way it
  ends. The results of the collaborators are inputs: each one is a field of the
  record \<open>environment\<close>, and the model follows the source's order of calls and its
  checks of their results.
\<close>

subsection \<open>Values\<close>

text \<open>A Go \<^verbatim>\<open>error\<close> is known to this program only through its message.\<close>

type_synonym err = string

text \<open>The logrus levels, in the library's order.\<close>

datatype level =
  PanicLevel | FatalLevel | ErrorLevel | WarnLevel | InfoLevel | DebugLevel | TraceLevel

text \<open>
  The two implementations of \<^verbatim>\<open>status.Reporter\<close> that \<^verbatim>\<open>run\<close> can hold: the
  \<^verbatim>\<open>NoOpReporter\<close> literal of line 157 and the one returned by
  \<^verbatim>\<open>status.NewReporter(cfg, mgr, namespace, clusterOperatorName, RELEASE_VERSION, stopCh)\<close>,
  kept with the three strings it was built from.
\<close>

datatype reporter =
  NoOpReporter
| ClusterOperatorReporter string string string

text \<open>
  The calls the program makes, in the order it makes them. \<open>Log l m\<close> is a call of the
  logger at level \<open>l\<close> with the formatted message \<open>m\<close> (whether the configured
  verbosity prints it is the logger's business); \<open>LogWithError\<close> is
  \<^verbatim>\<open>logger.WithError(err)\<close> followed by the call. \<open>MgrStart\<close> is the call of the blocking
  \<^verbatim>\<open>mgr.Start(ctx)\<close> and \<open>MgrStartReturned\<close> its return; \<open>AwaitDone\<close> is the receive
  \<^verbatim>\<open><-statusReportingDoneCh\<close> being entered and \<open>DoneObserved\<close> the receive completing.
\<close>

datatype event =
  Log level string
| LogWithError level string err
| FlagParse
| SetLevel level
| ServePrometheus string string
| GetWatchNamespace
| GetConfig
| SetConfigAPIAvailability
| AddToScheme string
| ManagerNew
| HandleHealthz
| ListenAndServe string
| WithCancel
| NewForConfig
| Hostname
| ResourceLockNew string string string
| NewReporter string string string
| PopulateGlobals
| AddToManager
| StartReporting reporter
| MgrStart
| MgrStartReturned "err option"
| AwaitDone
| DoneObserved
| CancelRoot

text \<open>
  How a piece of the program can fail to return to its caller: \<^verbatim>\<open>os.Exit(n)\<close> (which is
  also how \<^verbatim>\<open>logger.Fatal\<close> ends, with \<open>n = 1\<close>), a panic, or a blocking call that never
  returns.
\<close>

datatype outcome = Exit nat | Panicked err | Blocked

text \<open>A piece of the program: the calls it made, and either how it stopped or its result.\<close>

type_synonym 'a proc = "event list \<times> (outcome + 'a)"

definition ret :: "'a \<Rightarrow> 'a proc" where
  "ret x = ([], Inr x)"

definition emit :: "event \<Rightarrow> unit proc" where
  "emit e = ([e], Inr ())"

definition halt :: "outcome \<Rightarrow> 'a proc" where
  "halt out = ([], Inl out)"

definition then_do :: "'a proc \<Rightarrow> ('a \<Rightarrow> 'b proc) \<Rightarrow> 'b proc" where
  "then_do m f =
     (case m of
        (t, Inl out) \<Rightarrow> (t, Inl out)
      | (t, Inr x) \<Rightarrow> (case f x of (t', r) \<Rightarrow> (t @ t', r)))"

text \<open>\<^verbatim>\<open>logger.Fatal(err)\<close>: the entry is logged at the fatal level, then \<^verbatim>\<open>os.Exit(1)\<close>.\<close>

definition fatal :: "string \<Rightarrow> 'a proc" where
  "fatal msg = ([Log FatalLevel msg], Inl (Exit 1))"

text \<open>The idiom \<^verbatim>\<open>if err := f(); err != nil { logger.Fatal(err) }\<close>.\<close>

definition fatal_on_error :: "event \<Rightarrow> err option \<Rightarrow> unit proc" where
  "fatal_on_error call res =
     then_do (emit call) (\<lambda>_. case res of Some e \<Rightarrow> fatal e | None \<Rightarrow> ret ())"

text \<open>\<^verbatim>\<open>utilruntime.Must(err)\<close>: panics when the error is not nil.\<close>

definition must :: "event \<Rightarrow> err option \<Rightarrow> unit proc" where
  "must call res =
     then_do (emit call) (\<lambda>_. case res of Some e \<Rightarrow> halt (Panicked e) | None \<Rightarrow> ret ())"

subsection \<open>The inputs of one run of the process\<close>

text \<open>
  \<open>flagParse\<close> is the outcome of \<^verbatim>\<open>flag.Parse()\<close> and the flag values are those it
  leaves when the command line parses; \<open>podName\<close> and
  \<open>releaseVersion\<close> are what \<^verbatim>\<open>os.Getenv\<close> gives for \<^verbatim>\<open>POD_NAME\<close> and
  \<^verbatim>\<open>RELEASE_VERSION\<close>, the empty string for an unset variable. A collaborator that returns only an error is an
  \<open>err option\<close> (\<open>None\<close> is \<^verbatim>\<open>nil\<close>); one that returns a value and an error is a sum
  with the error on the left. \<open>mgrStart\<close> is what the blocking \<^verbatim>\<open>mgr.Start(ctx)\<close> does:
  \<open>None\<close> when it never returns, \<open>Some r\<close> when it returns \<open>r\<close>. \<open>reportingDone\<close> says
  whether the cluster-operator reporter ever closes the channel it returned.
\<close>

text \<open>
  What \<^verbatim>\<open>flag.Parse()\<close> (line 85) makes of the command line. The flags are registered on
  \<^verbatim>\<open>flag.CommandLine\<close>, whose error handling is \<^verbatim>\<open>flag.ExitOnError\<close>: a command line that
  asks for the usage (\<^verbatim>\<open>-h\<close>, \<^verbatim>\<open>-help\<close>) prints it and ends the process with status 0,
  one that does not parse (an undefined flag, a malformed value) ends it with status 2,
  and otherwise the flag variables hold the parsed values.
\<close>

datatype flagOutcome = FlagsParsed | FlagHelp | FlagError err

record environment =
  flagParse :: flagOutcome
  goVersion :: string
  goOS :: string
  goArch :: string
  clusterOperatorName :: string
  defaultsDir :: string
  versionFlag :: bool
  tlsKeyPath :: string
  tlsCertPath :: string
  leaderElectionNamespace :: string
  loglvl :: string
  sourceCommit :: string
  podName :: string
  releaseVersion :: string
  osHostname :: "err + string"
  parseLevel :: "string \<Rightarrow> err + level"
  servePrometheus :: "string \<Rightarrow> string \<Rightarrow> err option"
  getWatchNamespace :: "err + string"
  getConfig :: "err option"
  setConfigAPIAvailability :: "err option"
  apisAddToScheme :: "err option"
  olmAddToScheme :: "err option"
  corev1AddToScheme :: "err option"
  isAPIAvailable :: bool
  apiconfigAddToScheme :: "err option"
  managerNew :: "err option"
  newForConfig :: "err option"
  resourcelockNew :: "string \<Rightarrow> string \<Rightarrow> string \<Rightarrow> err option"
  newReporter :: "string \<Rightarrow> string \<Rightarrow> string \<Rightarrow> err option"
  populateGlobals :: "err option"
  addToManager :: "err option"
  mgrStart :: "err option option"
  reportingDone :: bool

subsection \<open>The episode body: \<^verbatim>\<open>run\<close> (lines 154-188)\<close>

text \<open>
  Modelled from the spec: the package \<^verbatim>\<open>pkg/status\<close> (the two reporters and their
  \<^verbatim>\<open>StartReporting\<close>) is not among the sources. The spec's section 4.3 says the no-op
  reporter "is considered immediately idle", so the channel it returns is closed from
  the start; the channel of the real reporter is closed when the environment says so.
  The result is whether a receive on the returned channel ever completes.
\<close>

definition startReporting :: "environment \<Rightarrow> reporter \<Rightarrow> bool" where
  "startReporting env r =
     (case r of
        NoOpReporter \<Rightarrow> True
      | ClusterOperatorReporter _ _ _ \<Rightarrow> reportingDone env)"

text \<open>
  \<^verbatim>\<open>run\<close> closes over \<^verbatim>\<open>namespace\<close>, \<^verbatim>\<open>clusterOperatorName\<close> and the logger of
  \<^verbatim>\<open>main\<close>; the namespace is the one \<^verbatim>\<open>GetWatchNamespace\<close> returned.
\<close>

definition run :: "environment \<Rightarrow> string \<Rightarrow> unit proc" where
  "run env namespace =
     then_do (emit (Log InfoLevel ''registering components'')) (\<lambda>_.
     then_do
       (if clusterOperatorName env \<noteq> [] then
          then_do (emit (Log InfoLevel
                     ''setting up the marketplace clusteroperator status reporter'')) (\<lambda>_.
          then_do (fatal_on_error
                     (NewReporter namespace (clusterOperatorName env) (releaseVersion env))
                     (newReporter env namespace (clusterOperatorName env) (releaseVersion env)))
            (\<lambda>_. ret (ClusterOperatorReporter
                         namespace (clusterOperatorName env) (releaseVersion env))))
        else ret NoOpReporter) (\<lambda>statusReporter.
     then_do (fatal_on_error PopulateGlobals (populateGlobals env)) (\<lambda>_.
     then_do (emit (Log InfoLevel ''setting up controllers'')) (\<lambda>_.
     then_do (fatal_on_error AddToManager (addToManager env)) (\<lambda>_.
     then_do (emit (Log InfoLevel
                ''starting the marketplace clusteroperator status reporter'')) (\<lambda>_.
     then_do (emit (StartReporting statusReporter)) (\<lambda>_.
     then_do (ret (startReporting env statusReporter)) (\<lambda>statusReportingDoneCh.
     then_do (emit (Log InfoLevel ''starting manager'')) (\<lambda>_.
     then_do (emit MgrStart) (\<lambda>_.
     then_do
       (case mgrStart env of
          None \<Rightarrow> halt Blocked
        | Some r \<Rightarrow>
            then_do (emit (MgrStartReturned r)) (\<lambda>_.
              case r of
                Some e \<Rightarrow> emit (LogWithError ErrorLevel ''unable to run manager'' e)
              | None \<Rightarrow> ret ())) (\<lambda>_.
     then_do (emit AwaitDone) (\<lambda>_.
       if statusReportingDoneCh then emit DoneObserved else halt Blocked))))))))))))"

subsection \<open>The callbacks handed to the leader-election library (lines 218-236)\<close>

text \<open>\<^verbatim>\<open>OnStartedLeading\<close>: the log line, then \<^verbatim>\<open>run(ctx)\<close>.\<close>

definition OnStartedLeading :: "environment \<Rightarrow> string \<Rightarrow> string \<Rightarrow> unit proc" where
  "OnStartedLeading env namespace ident =
     then_do (emit (Log InfoLevel (''became leader: '' @ ident))) (\<lambda>_. run env namespace)"

text \<open>
  \<^verbatim>\<open>OnStoppedLeading\<close>: the warning, then \<^verbatim>\<open>cancel()\<close>, the cancel function of the root
  context that line 151 derives from \<^verbatim>\<open>signals.Context()\<close> and line 212 passes to
  \<^verbatim>\<open>RunOrDie\<close>.
\<close>

definition OnStoppedLeading :: "string \<Rightarrow> unit proc" where
  "OnStoppedLeading ident =
     then_do (emit (Log WarnLevel (''leader election lost for '' @ ident @ '' identity'')))
       (\<lambda>_. emit CancelRoot)"

text \<open>\<^verbatim>\<open>OnNewLeader\<close>: nothing for the process's own identity, a log line otherwise.\<close>

definition OnNewLeader :: "string \<Rightarrow> string \<Rightarrow> unit proc" where
  "OnNewLeader ident observed =
     (if observed = ident then ret ()
      else emit (Log InfoLevel (''current leader: '' @ observed)))"

subsection \<open>Start-up: \<^verbatim>\<open>main\<close> up to the call of \<^verbatim>\<open>RunOrDie\<close> (lines 67-217)\<close>

text \<open>
  \<^verbatim>\<open>time.Duration\<close> is a count of nanoseconds in an \<^verbatim>\<open>int64\<close>. The three periods are
  typed constants, so Go computes them exactly at compile time; they are integers here
  and \<open>int64_range\<close> says what fits the type.
\<close>

definition Second :: int where
  "Second = 1000000000"

definition int64_range :: "int \<Rightarrow> bool" where
  "int64_range d = (- (2 ^ 63) \<le> d \<and> d < 2 ^ 63)"

definition defaultLeaderElectionConfigMapName :: string where
  "defaultLeaderElectionConfigMapName = ''marketplace-operator-lock''"

definition defaultRetryPeriod :: int where
  "defaultRetryPeriod = 30 * Second"

definition defaultRenewDeadline :: int where
  "defaultRenewDeadline = 60 * Second"

definition defaultLeaseDuration :: int where
  "defaultLeaseDuration = 90 * Second"

text \<open>
  What \<^verbatim>\<open>resourcelock.New\<close> is given: the namespace and name of the lock record, the
  identity of the holder, and the component name of the event recorder.
\<close>

record resourceLock =
  lockNamespace :: string
  lockName :: string
  lockIdentity :: string
  eventComponent :: string

text \<open>The fields of \<^verbatim>\<open>leaderelection.LeaderElectionConfig\<close> other than the callbacks.\<close>

record leaderElectionConfig =
  Lock :: resourceLock
  ReleaseOnCancel :: bool
  LeaseDuration :: int
  RenewDeadline :: int
  RetryPeriod :: int

text \<open>
  What start-up leaves for the election: the configuration, and the two values the
  callbacks close over (the watch namespace used by \<^verbatim>\<open>run\<close> and the identity).
\<close>

record election =
  elNamespace :: string
  elIdentity :: string
  elConfig :: leaderElectionConfig

definition printVersion :: "environment \<Rightarrow> unit proc" where
  "printVersion env =
     then_do (emit (Log InfoLevel (''Go Version: '' @ goVersion env))) (\<lambda>_.
       emit (Log InfoLevel (''Go OS/Arch: '' @ goOS env @ ''/'' @ goArch env)))"

definition setupScheme :: "environment \<Rightarrow> unit proc" where
  "setupScheme env =
     then_do (must (AddToScheme ''apis'') (apisAddToScheme env)) (\<lambda>_.
     then_do (must (AddToScheme ''olmv1alpha1'') (olmAddToScheme env)) (\<lambda>_.
     then_do (must (AddToScheme ''corev1'') (corev1AddToScheme env)) (\<lambda>_.
       if isAPIAvailable env
       then must (AddToScheme ''apiconfigv1'') (apiconfigAddToScheme env)
       else ret ())))"

text \<open>Lines 195-202: the identity is \<^verbatim>\<open>$POD_NAME\<close>, or the host name when that is empty.\<close>

definition resolveIdentity :: "environment \<Rightarrow> string proc" where
  "resolveIdentity env =
     (if podName env = [] then
        then_do (emit (Log WarnLevel
                   ''failed to determine $POD_NAME falling back to hostname'')) (\<lambda>_.
        then_do (emit Hostname) (\<lambda>_.
          case osHostname env of
            Inl e \<Rightarrow> fatal e
          | Inr h \<Rightarrow> ret h))
      else ret (podName env))"

definition bootstrap :: "environment \<Rightarrow> election proc" where
  "bootstrap env =
     then_do (printVersion env) (\<lambda>_.
     then_do (emit FlagParse) (\<lambda>_.
     then_do
       (case flagParse env of
          FlagsParsed \<Rightarrow> ret ()
        | FlagHelp \<Rightarrow> halt (Exit 0)
        | FlagError e \<Rightarrow> halt (Exit 2)) (\<lambda>_.
     then_do
       (case parseLevel env (loglvl env) of
          Inl e \<Rightarrow> then_do (emit (Log ErrorLevel e)) (\<lambda>_. halt (Exit 1))
        | Inr parsedLevel \<Rightarrow> emit (SetLevel parsedLevel)) (\<lambda>_.
     then_do
       (if versionFlag env
        then then_do (emit (Log InfoLevel (sourceCommit env))) (\<lambda>_. halt (Exit 0))
        else ret ()) (\<lambda>_.
     then_do (emit (ServePrometheus (tlsCertPath env) (tlsKeyPath env))) (\<lambda>_.
     then_do
       (case servePrometheus env (tlsCertPath env) (tlsKeyPath env) of
          Some e \<Rightarrow> fatal (''failed to serve prometheus metrics: '' @ e)
        | None \<Rightarrow> ret ()) (\<lambda>_.
     then_do (emit GetWatchNamespace) (\<lambda>_.
     then_do
       (case getWatchNamespace env of
          Inl e \<Rightarrow> fatal (''failed to get watch namespace: '' @ e)
        | Inr n \<Rightarrow> ret n) (\<lambda>namespace.
     then_do (fatal_on_error GetConfig (getConfig env)) (\<lambda>_.
     then_do (fatal_on_error SetConfigAPIAvailability (setConfigAPIAvailability env)) (\<lambda>_.
     then_do (emit (Log InfoLevel ''setting up scheme'')) (\<lambda>_.
     then_do (setupScheme env) (\<lambda>_.
     then_do (fatal_on_error ManagerNew (managerNew env)) (\<lambda>_.
     then_do (emit (Log InfoLevel ''setting up health checks'')) (\<lambda>_.
     then_do (emit HandleHealthz) (\<lambda>_.
     then_do (emit (ListenAndServe '':8080'')) (\<lambda>_.
     then_do (emit WithCancel) (\<lambda>_.
     then_do (emit NewForConfig) (\<lambda>_.
     then_do
       (case newForConfig env of
          Some e \<Rightarrow> fatal (''failed to initialize the kubernetes clientset: '' @ e)
        | None \<Rightarrow> ret ()) (\<lambda>_.
     then_do (resolveIdentity env) (\<lambda>ident.
     then_do
       (fatal_on_error
          (ResourceLockNew (leaderElectionNamespace env)
             defaultLeaderElectionConfigMapName ident)
          (resourcelockNew env (leaderElectionNamespace env)
             defaultLeaderElectionConfigMapName ident)) (\<lambda>_.
       ret \<lparr>elNamespace = namespace,
            elIdentity = ident,
            elConfig =
              \<lparr>Lock = \<lparr>lockNamespace = leaderElectionNamespace env,
                        lockName = defaultLeaderElectionConfigMapName,
                        lockIdentity = ident,
                        eventComponent = ident\<rparr>,
               ReleaseOnCancel = True,
               LeaseDuration = defaultLeaseDuration,
               RenewDeadline = defaultRenewDeadline,
               RetryPeriod = defaultRetryPeriod\<rparr>\<rparr>))))))))))))))))))))))"

text \<open>
  The exit status the operating system sees: the argument of \<^verbatim>\<open>os.Exit\<close>, 2 for a Go
  panic that nothing recovers, and none for a process that is still blocked.
\<close>

definition exit_status :: "outcome \<Rightarrow> nat option" where
  "exit_status out =
     (case out of Exit n \<Rightarrow> Some n | Panicked _ \<Rightarrow> Some 2 | Blocked \<Rightarrow> None)"

subsection \<open>The root context and the election loop\<close>

text \<open>
  The root context of line 151 is live until its \<^verbatim>\<open>cancel\<close> is called and cancelled
  for ever after: \<open>cancelled_after c tr\<close> is its state after the calls \<open>tr\<close>, started
  from the state \<open>c\<close>.
\<close>

definition cancelled_after :: "bool \<Rightarrow> event list \<Rightarrow> bool" where
  "cancelled_after c tr = (c \<or> CancelRoot \<in> set tr)"

text \<open>
  Modelled from the spec: \<^verbatim>\<open>leaderelection.RunOrDie\<close> (package
  \<^verbatim>\<open>k8s.io/client-go/tools/leaderelection\<close>) is called at line 212 and is not among the
  sources. Section 4.2 of the spec gives its states, "Candidate, Leading, (Lost |
  Released), Candidate (terminal exit only on process shutdown)", and its three
  callbacks. \<open>Lost\<close> and \<open>Released\<close> are passed through within one step (the callback
  is fired "synchronously, before any new acquisition attempt is made"), so a process
  is observed as a candidate, as the leader, or finished. What the loop is told by the
  coordination store and the operating system is a \<open>signal\<close>.
\<close>

datatype phase = Candidate | Leading | Finished

datatype signal =
  AcquireGranted
| AcquireDenied
| RenewSucceeded
| RenewFailed
| ContextCancelled
| OwnerObserved string

text \<open>
  The state of the process during the election: the phase, the root context, how often
  each of the two episode callbacks has been invoked, and the exit status once the
  process has ended.
\<close>

record process =
  current :: phase
  rootCancelled :: bool
  started :: nat
  stopped :: nat
  exited :: "nat option"

definition initial :: process where
  "initial =
     \<lparr>current = Candidate, rootCancelled = False, started = 0, stopped = 0, exited = None\<rparr>"

text \<open>
  Modelled from the spec: how the loop of \<^verbatim>\<open>RunOrDie\<close>, which is not among the sources,
  invokes a callback of the source. A \<^verbatim>\<open>cancel()\<close> among its calls cancels the root
  context, and a callback that exits or panics ends the process. A callback that
  returns or blocks leaves the rest to the loop (the library runs
  \<^verbatim>\<open>OnStartedLeading\<close> beside the renewal loop).
\<close>

definition fire :: "unit proc \<Rightarrow> process \<Rightarrow> process" where
  "fire cb p =
     (let p' = p\<lparr>rootCancelled := cancelled_after (rootCancelled p) (fst cb)\<rparr>
      in case snd cb of
           Inl (Exit n) \<Rightarrow> p'\<lparr>current := Finished, exited := Some n\<rparr>
         | Inl (Panicked e) \<Rightarrow> p'\<lparr>current := Finished, exited := Some 2\<rparr>
         | Inl Blocked \<Rightarrow> p'
         | Inr _ \<Rightarrow> p')"

text \<open>
  Modelled from the spec: one step of the loop of \<^verbatim>\<open>RunOrDie\<close>, which is not among the
  sources (section 4.2). The loop runs under the root context (the first argument of
  \<^verbatim>\<open>RunOrDie\<close>), and the spec's shutdown is the cancellation of that context (section
  4.4: the signals "trigger the same cancellation path as leadership loss"; section 5:
  "cancelling the root context (signal, or leadership loss) propagates to every
  subsystem sharing that context"): a candidate whose context is cancelled makes no
  further attempt and the loop returns, after which \<^verbatim>\<open>main\<close> returns with status 0.
  \<^item> Candidate: granted, it becomes the leader and \<^verbatim>\<open>OnStartedLeading\<close> is invoked;
    not granted, it stays a candidate.
  \<^item> Leading: a renewal in time keeps it; one that fails is \<open>Lost\<close>, a cancellation
    of the context is \<open>Released\<close>; both invoke \<^verbatim>\<open>OnStoppedLeading\<close> once and
    return to Candidate.
  \<^item> A change of the observed owner invokes \<^verbatim>\<open>OnNewLeader\<close>.
\<close>

definition step :: "environment \<Rightarrow> election \<Rightarrow> process \<Rightarrow> signal \<Rightarrow> process" where
  "step env el p s =
     (case current p of
        Finished \<Rightarrow> p
      | Candidate \<Rightarrow>
          if rootCancelled p then p\<lparr>current := Finished, exited := Some 0\<rparr>
          else
            (case s of
               AcquireGranted \<Rightarrow>
                 fire (OnStartedLeading env (elNamespace el) (elIdentity el))
                   (p\<lparr>current := Leading, started := started p + 1\<rparr>)
             | ContextCancelled \<Rightarrow>
                 p\<lparr>rootCancelled := True, current := Finished, exited := Some 0\<rparr>
             | OwnerObserved x \<Rightarrow> fire (OnNewLeader (elIdentity el) x) p
             | _ \<Rightarrow> p)
      | Leading \<Rightarrow>
          (case s of
             RenewFailed \<Rightarrow>
               fire (OnStoppedLeading (elIdentity el))
                 (p\<lparr>current := Candidate, stopped := stopped p + 1\<rparr>)
           | ContextCancelled \<Rightarrow>
               fire (OnStoppedLeading (elIdentity el))
                 (p\<lparr>rootCancelled := True, current := Candidate, stopped := stopped p + 1\<rparr>)
           | OwnerObserved x \<Rightarrow> fire (OnNewLeader (elIdentity el) x) p
           | _ \<Rightarrow> p))"

text \<open>
  Modelled from the spec: the check of the timing parameters that \<^verbatim>\<open>RunOrDie\<close>, which is
  not among the sources, makes before the loop starts. Section 3 gives the invariant
  "lease duration > renew deadline > retry period" and section 8 the check: "configuring
  lease duration \<le> renew deadline must be rejected or corrected at startup".
\<close>

definition timingRejected :: "leaderElectionConfig \<Rightarrow> bool" where
  "timingRejected c = (LeaseDuration c \<le> RenewDeadline c)"

text \<open>
  Modelled from the spec: \<^verbatim>\<open>RunOrDie\<close> itself, which is not among the sources. A rejected
  configuration makes it die before any attempt on the lock: a Go panic, which ends the
  process with status 2 (section 6: "non-zero for any fatal setup or configuration
  error"). Otherwise the process starts as a candidate with a live context and takes one
  step for each signal.
\<close>

definition RunOrDie :: "environment \<Rightarrow> election \<Rightarrow> signal list \<Rightarrow> process" where
  "RunOrDie env el ss =
     (if timingRejected (elConfig el)
      then initial\<lparr>current := Finished, exited := Some 2\<rparr>
      else foldl (step env el) initial ss)"

text \<open>The whole program: start-up, then the election under the signals it receives.\<close>

definition main :: "environment \<Rightarrow> signal list \<Rightarrow> process proc" where
  "main env ss = then_do (bootstrap env) (\<lambda>el. ret (RunOrDie env el ss))"

subsection \<open>Reading a trace\<close>

definition is_StartReporting :: "event \<Rightarrow> bool" where
  "is_StartReporting e = (case e of StartReporting _ \<Rightarrow> True | _ \<Rightarrow> False)"

definition is_MgrStartReturned :: "event \<Rightarrow> bool" where
  "is_MgrStartReturned e = (case e of MgrStartReturned _ \<Rightarrow> True | _ \<Rightarrow> False)"

text \<open>
  \<open>none_before Q P tr\<close>: no call satisfying \<open>Q\<close> stands in \<open>tr\<close> before the first call
  satisfying \<open>P\<close>; in particular no \<open>Q\<close> at all when there is no \<open>P\<close>.
\<close>

definition none_before :: "(event \<Rightarrow> bool) \<Rightarrow> (event \<Rightarrow> bool) \<Rightarrow> event list \<Rightarrow> bool" where
  "none_before Q P tr = list_all (\<lambda>e. \<not> Q e) (takeWhile (\<lambda>e. \<not> P e) tr)"

text \<open>
  The inputs under which \<^verbatim>\<open>run\<close> gets as far as starting the reporter: the reporter is
  the no-op one or its construction succeeds, and \<^verbatim>\<open>PopulateGlobals\<close> and
  \<^verbatim>\<open>AddToManager\<close> return no error. \<open>episodeReporter\<close> is the reporter \<^verbatim>\<open>run\<close> then
  holds.
\<close>

definition episodeReady :: "environment \<Rightarrow> string \<Rightarrow> bool" where
  "episodeReady env namespace =
     ((clusterOperatorName env = [] \<or>
       newReporter env namespace (clusterOperatorName env) (releaseVersion env) = None) \<and>
      populateGlobals env = None \<and> addToManager env = None)"

definition episodeReporter :: "environment \<Rightarrow> string \<Rightarrow> reporter" where
  "episodeReporter env namespace =
     (if clusterOperatorName env = [] then NoOpReporter
      else ClusterOperatorReporter namespace (clusterOperatorName env) (releaseVersion env))"

subsection \<open>A sample deployment\<close>

text \<open>
  \<^verbatim>\<open>logrus.ParseLevel\<close> on ASCII input: the name is compared in lower case
  (\<^verbatim>\<open>strings.ToLower\<close>), and the error quotes the input as given (\<^verbatim>\<open>%q\<close>, which for
  printable ASCII without quotes or backslashes is the input between double quotes).
\<close>

definition asciiLower :: "char \<Rightarrow> char" where
  "asciiLower c =
     (case map_of (zip ''ABCDEFGHIJKLMNOPQRSTUVWXYZ'' ''abcdefghijklmnopqrstuvwxyz'') c of
        Some l \<Rightarrow> l
      | None \<Rightarrow> c)"

definition sampleParseLevel :: "string \<Rightarrow> err + level" where
  "sampleParseLevel s =
     (let l = map asciiLower s in
      if l = ''panic'' then Inr PanicLevel
      else if l = ''fatal'' then Inr FatalLevel
      else if l = ''error'' then Inr ErrorLevel
      else if l = ''warn'' \<or> l = ''warning'' then Inr WarnLevel
      else if l = ''info'' then Inr InfoLevel
      else if l = ''debug'' then Inr DebugLevel
      else if l = ''trace'' then Inr TraceLevel
      else Inl (''not a valid logrus Level: '' @ [CHR 0x22] @ s @ [CHR 0x22]))"

text \<open>
  The end-to-end scenario of the spec's section 8: the pod \<^verbatim>\<open>pod-A\<close>, every collaborator
  succeeding, the manager returning \<^verbatim>\<open>nil\<close> on cancellation and the reporter closing its
  channel.
\<close>

definition pod_A :: environment where
  "pod_A =
     \<lparr>flagParse = FlagsParsed,
      goVersion = ''go1.18'', goOS = ''linux'', goArch = ''amd64'',
      clusterOperatorName = ''marketplace'',
      defaultsDir = ''/defaults'',
      versionFlag = False,
      tlsKeyPath = ''/tls/tls.key'',
      tlsCertPath = ''/tls/tls.crt'',
      leaderElectionNamespace = ''openshift-marketplace'',
      loglvl = ''info'',
      sourceCommit = ''abc123'',
      podName = ''pod-A'',
      releaseVersion = ''4.12.0'',
      osHostname = Inr ''host-A'',
      parseLevel = sampleParseLevel,
      servePrometheus = (\<lambda>_ _. None),
      getWatchNamespace = Inr ''openshift-marketplace'',
      getConfig = None,
      setConfigAPIAvailability = None,
      apisAddToScheme = None,
      olmAddToScheme = None,
      corev1AddToScheme = None,
      isAPIAvailable = True,
      apiconfigAddToScheme = None,
      managerNew = None,
      newForConfig = None,
      resourcelockNew = (\<lambda>_ _ _. None),
      newReporter = (\<lambda>_ _ _. None),
      populateGlobals = None,
      addToManager = None,
      mgrStart = Some None,
      reportingDone = True\<rparr>"

text \<open>What start-up returns for \<open>pod_A\<close> (lemma \<open>bootstrap_pod_A\<close>).\<close>

definition election_A :: election where
  "election_A =
     \<lparr>elNamespace = ''openshift-marketplace'',
      elIdentity = ''pod-A'',
      elConfig =
        \<lparr>Lock = \<lparr>lockNamespace = ''openshift-marketplace'',
                  lockName = ''marketplace-operator-lock'',
                  lockIdentity = ''pod-A'',
                  eventComponent = ''pod-A''\<rparr>,
         ReleaseOnCancel = True,
         LeaseDuration = 90000000000,
         RenewDeadline = 60000000000,
         RetryPeriod = 30000000000\<rparr>\<rparr>"

section \<open>Properties\<close>

subsection \<open>Reasoning about pieces of the program\<close>

lemmas proc_defs = ret_def emit_def halt_def then_do_def fatal_def fatal_on_error_def must_def

lemma snd_then_do:
  "snd (then_do m f) = (case snd m of Inl out \<Rightarrow> Inl out | Inr x \<Rightarrow> snd (f x))"
  by (simp add: then_do_def split: prod.splits sum.splits)

lemma snd_steps:
  "snd (ret x) = Inr x"
  "snd (emit e) = Inr ()"
  "snd (halt out) = Inl out"
  "snd (fatal msg) = Inl (Exit 1)"
  "snd (fatal_on_error c r) = (case r of Some e \<Rightarrow> Inl (Exit 1) | None \<Rightarrow> Inr ())"
  "snd (must c r) = (case r of Some e \<Rightarrow> Inl (Panicked e) | None \<Rightarrow> Inr ())"
  by (simp_all add: proc_defs split: option.splits)

lemma snd_printVersion: "snd (printVersion env) = Inr ()"
  by (simp add: printVersion_def snd_then_do snd_steps)

lemma snd_setupScheme: "snd (setupScheme env) = Inl out \<Longrightarrow> \<exists>e. out = Panicked e"
  by (auto simp add: setupScheme_def snd_then_do snd_steps split: option.splits if_splits)

lemma snd_resolveIdentity:
  "snd (resolveIdentity env) =
     (if podName env = []
      then (case osHostname env of Inl e \<Rightarrow> Inl (Exit 1) | Inr h \<Rightarrow> Inr h)
      else Inr (podName env))"
  by (simp add: resolveIdentity_def snd_then_do snd_steps split: sum.splits)

text \<open>Start-up returns only with the identity it resolved and the constants of lines 42-45.\<close>

lemma bootstrap_returns:
  assumes "snd (bootstrap env) = Inr el"
  shows "snd (resolveIdentity env) = Inr (elIdentity el)"
    and "getWatchNamespace env = Inr (elNamespace el)"
    and "\<not> versionFlag env"
    and "flagParse env = FlagsParsed"
    and "elConfig el =
           \<lparr>Lock = \<lparr>lockNamespace = leaderElectionNamespace env,
                     lockName = defaultLeaderElectionConfigMapName,
                     lockIdentity = elIdentity el,
                     eventComponent = elIdentity el\<rparr>,
            ReleaseOnCancel = True,
            LeaseDuration = defaultLeaseDuration,
            RenewDeadline = defaultRenewDeadline,
            RetryPeriod = defaultRetryPeriod\<rparr>"
  using assms
  by (auto simp add: bootstrap_def snd_then_do snd_steps snd_printVersion snd_resolveIdentity
      split: sum.splits option.splits if_splits flagOutcome.splits)

lemma bootstrap_stops:
  assumes "snd (bootstrap env) = Inl out"
    and "flagParse env \<noteq> FlagHelp"
    and "\<not> (versionFlag env \<and> (\<exists>l. parseLevel env (loglvl env) = Inr l))"
  shows "out = Exit 1 \<or> out = Exit 2 \<or> (\<exists>e. out = Panicked e)"
  using assms
  by (auto simp add: bootstrap_def snd_then_do snd_steps snd_printVersion snd_resolveIdentity
      split: sum.splits option.splits if_splits flagOutcome.splits dest: snd_setupScheme)

text \<open>How start-up ends, collaborator by collaborator in the order of the source.\<close>

lemma snd_bootstrap:
  "snd (bootstrap env) =
     (case flagParse env of
        FlagHelp \<Rightarrow> Inl (Exit 0)
      | FlagError e \<Rightarrow> Inl (Exit 2)
      | FlagsParsed \<Rightarrow>
     (case parseLevel env (loglvl env) of
        Inl e \<Rightarrow> Inl (Exit 1)
      | Inr l \<Rightarrow>
     if versionFlag env then Inl (Exit 0)
     else if servePrometheus env (tlsCertPath env) (tlsKeyPath env) \<noteq> None then Inl (Exit 1)
     else
     (case getWatchNamespace env of
        Inl e \<Rightarrow> Inl (Exit 1)
      | Inr namespace \<Rightarrow>
     if getConfig env \<noteq> None then Inl (Exit 1)
     else if setConfigAPIAvailability env \<noteq> None then Inl (Exit 1)
     else
     (case apisAddToScheme env of Some e \<Rightarrow> Inl (Panicked e) | None \<Rightarrow>
     (case olmAddToScheme env of Some e \<Rightarrow> Inl (Panicked e) | None \<Rightarrow>
     (case corev1AddToScheme env of Some e \<Rightarrow> Inl (Panicked e) | None \<Rightarrow>
     (case (if isAPIAvailable env then apiconfigAddToScheme env else None) of
        Some e \<Rightarrow> Inl (Panicked e)
      | None \<Rightarrow>
     if managerNew env \<noteq> None then Inl (Exit 1)
     else if newForConfig env \<noteq> None then Inl (Exit 1)
     else
     (case (if podName env = [] then osHostname env else Inr (podName env)) of
        Inl e \<Rightarrow> Inl (Exit 1)
      | Inr ident \<Rightarrow>
     if resourcelockNew env (leaderElectionNamespace env)
          defaultLeaderElectionConfigMapName ident \<noteq> None
     then Inl (Exit 1)
     else
       Inr \<lparr>elNamespace = namespace,
            elIdentity = ident,
            elConfig =
              \<lparr>Lock = \<lparr>lockNamespace = leaderElectionNamespace env,
                        lockName = defaultLeaderElectionConfigMapName,
                        lockIdentity = ident,
                        eventComponent = ident\<rparr>,
               ReleaseOnCancel = True,
               LeaseDuration = defaultLeaseDuration,
               RenewDeadline = defaultRenewDeadline,
               RetryPeriod = defaultRetryPeriod\<rparr>\<rparr>))))))))"
proof (cases "flagParse env")
  case FlagsParsed
  note parsed = this
  show ?thesis
  proof (cases "parseLevel env (loglvl env)")
    case (Inr l)
    note level = this
    show ?thesis
    proof (cases "versionFlag env \<or>
        servePrometheus env (tlsCertPath env) (tlsKeyPath env) \<noteq> None")
      case False
      note served = this
      show ?thesis
      proof (cases "getWatchNamespace env")
        case (Inr namespace)
        note watched = this
        show ?thesis
        proof (cases "getConfig env \<noteq> None \<or> setConfigAPIAvailability env \<noteq> None")
          case False
          note configured = this
          show ?thesis
          proof (cases "snd (setupScheme env)")
            case (Inr u)
            then have scheme: "apisAddToScheme env = None" "olmAddToScheme env = None"
              "corev1AddToScheme env = None"
              "(if isAPIAvailable env then apiconfigAddToScheme env else None) = None"
              by (auto simp add: setupScheme_def snd_then_do snd_steps
                  split: option.splits if_splits)
            show ?thesis
              using parsed level served watched configured Inr scheme
              by (simp add: bootstrap_def snd_then_do snd_steps snd_printVersion
                  snd_resolveIdentity split: sum.splits option.splits)
          next
            case (Inl out)
            then show ?thesis
              using parsed level served watched configured
              by (auto simp add: bootstrap_def setupScheme_def snd_then_do snd_steps
                  snd_printVersion split: option.splits if_splits)
          qed
        next
          case True
          then show ?thesis
            using parsed level served watched
            by (auto simp add: bootstrap_def snd_then_do snd_steps snd_printVersion)
        qed
      next
        case (Inl e)
        then show ?thesis
          using parsed level served
          by (simp add: bootstrap_def snd_then_do snd_steps snd_printVersion)
      qed
    next
      case True
      then show ?thesis
        using parsed level
        by (auto simp add: bootstrap_def snd_then_do snd_steps snd_printVersion)
    qed
  next
    case (Inl e)
    then show ?thesis
      using parsed by (simp add: bootstrap_def snd_then_do snd_steps snd_printVersion)
  qed
next
  case FlagHelp
  then show ?thesis
    by (simp add: bootstrap_def snd_then_do snd_steps snd_printVersion)
next
  case (FlagError e)
  then show ?thesis
    by (simp add: bootstrap_def snd_then_do snd_steps snd_printVersion)
qed

lemma bootstrap_pod_A: "snd (bootstrap pod_A) = Inr election_A"
  by (simp add: snd_bootstrap pod_A_def election_A_def sampleParseLevel_def asciiLower_def
      defaultLeaderElectionConfigMapName_def defaultLeaseDuration_def
      defaultRenewDeadline_def defaultRetryPeriod_def Second_def)

text \<open>What \<open>none_before\<close> means position by position.\<close>

lemma none_before_position:
  "none_before Q P tr \<Longrightarrow> i < length tr \<Longrightarrow> Q (tr ! i) \<Longrightarrow> \<exists>j\<le>i. P (tr ! j)"
proof (induction tr arbitrary: i)
  case Nil
  then show ?case by simp
next
  case (Cons x xs)
  show ?case
  proof (cases "P x")
    case True
    then have "P ((x # xs) ! 0)" by simp
    then show ?thesis by blast
  next
    case False
    with Cons.prems(1) have nq: "\<not> Q x" and rest: "none_before Q P xs"
      by (simp_all add: none_before_def)
    from nq Cons.prems(3) obtain k where k: "i = Suc k"
      by (cases i) auto
    with Cons.prems have "k < length xs" "Q (xs ! k)" by simp_all
    from Cons.IH[OF rest this] obtain j where "j \<le> k" "P (xs ! j)" by blast
    then have "Suc j \<le> i" "P ((x # xs) ! Suc j)" using k by simp_all
    then show ?thesis by blast
  qed
qed

subsection \<open>The election loop after the root context is cancelled\<close>

lemma fire_OnStoppedLeading: "fire (OnStoppedLeading ident) p = p\<lparr>rootCancelled := True\<rparr>"
  by (simp add: fire_def OnStoppedLeading_def proc_defs cancelled_after_def)

lemma step_when_cancelled:
  assumes "rootCancelled p" and "current p \<noteq> Leading"
  shows "rootCancelled (step env el p s)"
    and "current (step env el p s) = Finished"
    and "started (step env el p s) = started p"
    and "stopped (step env el p s) = stopped p"
  using assms by (cases "current p"; simp add: step_def)+

lemma steps_when_cancelled:
  "rootCancelled p \<Longrightarrow> current p \<noteq> Leading \<Longrightarrow>
   current (foldl (step env el) p ss) \<noteq> Leading \<and>
   started (foldl (step env el) p ss) = started p \<and>
   stopped (foldl (step env el) p ss) = stopped p"
proof (induction ss arbitrary: p)
  case Nil
  then show ?case by simp
next
  case (Cons s ss)
  note here = step_when_cancelled[OF Cons.prems, of env el s]
  have "current (step env el p s) \<noteq> Leading"
    using here(2) by simp
  from Cons.IH[OF here(1) this] show ?case
    using here(3,4) by simp
qed

text \<open>
  A fatal error in the episode body ends the process, whatever the loop is told
  afterwards.
\<close>

lemma fatal_episode_ends_process:
  assumes "snd (OnStartedLeading env (elNamespace el) (elIdentity el)) = Inl (Exit n)"
    and "current p = Candidate" and "\<not> rootCancelled p"
  shows "exited (foldl (step env el) (step env el p AcquireGranted) ss) = Some n"
proof -
  have fin: "current q = Finished \<Longrightarrow> foldl (step env el) q ss = q" for q
    by (induction ss) (simp_all add: step_def)
  have "current (step env el p AcquireGranted) = Finished"
    and "exited (step env el p AcquireGranted) = Some n"
    using assms by (simp_all add: step_def fire_def)
  then show ?thesis using fin by simp
qed

subsection \<open>The episode body\<close>

text \<open>
  Claim C1. In every leadership episode the status reporter is started before the
  blocking start of the reconciliation manager is invoked; once that call has returned
  (with or without an error) the routine waits on the reporter's completion signal, and
  the body of \<^verbatim>\<open>OnStartedLeading\<close> returns only after observing it.
  \<^item> In the trace of the callback no \<open>MgrStart\<close> stands before the first
    \<open>StartReporting\<close>, the return of the manager never stands before its call, neither
    the receive \<open>AwaitDone\<close> nor its completion \<open>DoneObserved\<close> stands before the
    first \<open>MgrStartReturned\<close>, a returned call is followed by the receive, and a
    returning body ends with \<open>DoneObserved\<close>.
  \<^item> These calls are made: the reporter is started and the manager is called exactly
    when the collaborators before them succeed (\<open>episodeReady\<close>: otherwise the process
    has exited, claims C5 and C6); the receive is entered exactly when, besides, the
    manager returns; the signal is observed, and the body returns, exactly when,
    besides, the reporter closes its channel.
  \<^item> From the start of the reporter on, the trace is the one the source prescribes:
    reporter, manager call, its return, the error log if any, the receive, the signal.
\<close>

theorem reporter_started_before_manager_and_awaited_after:
  "none_before (\<lambda>e. e = MgrStart) is_StartReporting (fst (OnStartedLeading env ns ident)) \<and>
   none_before is_MgrStartReturned (\<lambda>e. e = MgrStart) (fst (OnStartedLeading env ns ident)) \<and>
   none_before (\<lambda>e. e = AwaitDone) is_MgrStartReturned (fst (OnStartedLeading env ns ident)) \<and>
   none_before (\<lambda>e. e = DoneObserved) is_MgrStartReturned
     (fst (OnStartedLeading env ns ident)) \<and>
   none_before (\<lambda>e. e = DoneObserved) (\<lambda>e. e = AwaitDone)
     (fst (OnStartedLeading env ns ident)) \<and>
   ((\<exists>r. MgrStartReturned r \<in> set (fst (OnStartedLeading env ns ident))) \<longrightarrow>
      AwaitDone \<in> set (fst (OnStartedLeading env ns ident))) \<and>
   (snd (OnStartedLeading env ns ident) = Inr () \<longrightarrow>
      last (fst (OnStartedLeading env ns ident)) = DoneObserved) \<and>
   distinct (fst (OnStartedLeading env ns ident)) \<and>
   (StartReporting (episodeReporter env ns) \<in> set (fst (OnStartedLeading env ns ident))
      \<longleftrightarrow> episodeReady env ns) \<and>
   (MgrStart \<in> set (fst (OnStartedLeading env ns ident)) \<longleftrightarrow> episodeReady env ns) \<and>
   (MgrStartReturned r \<in> set (fst (OnStartedLeading env ns ident))
      \<longleftrightarrow> episodeReady env ns \<and> mgrStart env = Some r) \<and>
   (AwaitDone \<in> set (fst (OnStartedLeading env ns ident))
      \<longleftrightarrow> episodeReady env ns \<and> mgrStart env \<noteq> None) \<and>
   (DoneObserved \<in> set (fst (OnStartedLeading env ns ident))
      \<longleftrightarrow> episodeReady env ns \<and> mgrStart env \<noteq> None \<and>
          startReporting env (episodeReporter env ns)) \<and>
   (snd (OnStartedLeading env ns ident) = Inr ()
      \<longleftrightarrow> episodeReady env ns \<and> mgrStart env \<noteq> None \<and>
          startReporting env (episodeReporter env ns)) \<and>
   (episodeReady env ns \<longrightarrow>
      dropWhile (\<lambda>e. \<not> is_StartReporting e) (fst (OnStartedLeading env ns ident)) =
        [StartReporting (episodeReporter env ns), Log InfoLevel ''starting manager'', MgrStart] @
        (case mgrStart env of
           None \<Rightarrow> []
         | Some res \<Rightarrow>
             [MgrStartReturned res] @
             (case res of
                Some e \<Rightarrow> [LogWithError ErrorLevel ''unable to run manager'' e]
              | None \<Rightarrow> []) @
             [AwaitDone] @
             (if startReporting env (episodeReporter env ns) then [DoneObserved] else [])))"
proof -
  let ?tr = "fst (OnStartedLeading env ns ident)"
  have order: "none_before (\<lambda>e. e = MgrStart) is_StartReporting ?tr"
    "none_before is_MgrStartReturned (\<lambda>e. e = MgrStart) ?tr"
    "none_before (\<lambda>e. e = AwaitDone) is_MgrStartReturned ?tr"
    "none_before (\<lambda>e. e = DoneObserved) is_MgrStartReturned ?tr"
    "none_before (\<lambda>e. e = DoneObserved) (\<lambda>e. e = AwaitDone) ?tr"
    by (simp_all add: OnStartedLeading_def run_def proc_defs startReporting_def
        none_before_def is_StartReporting_def is_MgrStartReturned_def
        split: option.splits reporter.splits)
  have waits: "(\<exists>r. MgrStartReturned r \<in> set ?tr) \<longrightarrow> AwaitDone \<in> set ?tr"
    "snd (OnStartedLeading env ns ident) = Inr () \<longrightarrow> last ?tr = DoneObserved"
    "distinct ?tr"
    by (simp_all add: OnStartedLeading_def run_def proc_defs startReporting_def
        split: option.splits reporter.splits)
  have made: "StartReporting (episodeReporter env ns) \<in> set ?tr \<longleftrightarrow> episodeReady env ns"
    "MgrStart \<in> set ?tr \<longleftrightarrow> episodeReady env ns"
    "MgrStartReturned r \<in> set ?tr \<longleftrightarrow> episodeReady env ns \<and> mgrStart env = Some r"
    "AwaitDone \<in> set ?tr \<longleftrightarrow> episodeReady env ns \<and> mgrStart env \<noteq> None"
    by (auto simp add: OnStartedLeading_def run_def proc_defs startReporting_def
        episodeReady_def episodeReporter_def split: option.splits reporter.splits)
  have observed: "DoneObserved \<in> set ?tr \<longleftrightarrow>
      episodeReady env ns \<and> mgrStart env \<noteq> None \<and> startReporting env (episodeReporter env ns)"
    "snd (OnStartedLeading env ns ident) = Inr () \<longleftrightarrow>
      episodeReady env ns \<and> mgrStart env \<noteq> None \<and> startReporting env (episodeReporter env ns)"
    by (auto simp add: OnStartedLeading_def run_def proc_defs startReporting_def
        episodeReady_def episodeReporter_def split: option.splits reporter.splits)
  have shape: "episodeReady env ns \<longrightarrow>
      dropWhile (\<lambda>e. \<not> is_StartReporting e) ?tr =
        [StartReporting (episodeReporter env ns), Log InfoLevel ''starting manager'', MgrStart] @
        (case mgrStart env of
           None \<Rightarrow> []
         | Some res \<Rightarrow>
             [MgrStartReturned res] @
             (case res of
                Some e \<Rightarrow> [LogWithError ErrorLevel ''unable to run manager'' e]
              | None \<Rightarrow> []) @
             [AwaitDone] @
             (if startReporting env (episodeReporter env ns) then [DoneObserved] else []))"
    by (auto simp add: OnStartedLeading_def run_def proc_defs startReporting_def
        episodeReady_def episodeReporter_def is_StartReporting_def
        split: option.splits reporter.splits)
  show ?thesis
    using order waits made observed shape by blast
qed

text \<open>
  The claim at \<open>pod_A\<close>: every collaborator succeeds, the manager returns and the
  reporter closes its channel, so the hypotheses hold, every call is made, and the
  trace is the one the source gives.
\<close>

theorem reporter_started_before_manager_and_awaited_after_witness:
  "episodeReady pod_A ''openshift-marketplace'' \<and>
   mgrStart pod_A = Some None \<and>
   startReporting pod_A (episodeReporter pod_A ''openshift-marketplace'') \<and>
   MgrStartReturned None \<in> set (fst (OnStartedLeading pod_A ''openshift-marketplace'' ''pod-A'')) \<and>
   AwaitDone \<in> set (fst (OnStartedLeading pod_A ''openshift-marketplace'' ''pod-A'')) \<and>
   snd (OnStartedLeading pod_A ''openshift-marketplace'' ''pod-A'') = Inr () \<and>
   last (fst (OnStartedLeading pod_A ''openshift-marketplace'' ''pod-A'')) = DoneObserved \<and>
   fst (OnStartedLeading pod_A ''openshift-marketplace'' ''pod-A'') =
     [Log InfoLevel ''became leader: pod-A'',
      Log InfoLevel ''registering components'',
      Log InfoLevel ''setting up the marketplace clusteroperator status reporter'',
      NewReporter ''openshift-marketplace'' ''marketplace'' ''4.12.0'',
      PopulateGlobals,
      Log InfoLevel ''setting up controllers'',
      AddToManager,
      Log InfoLevel ''starting the marketplace clusteroperator status reporter'',
      StartReporting
        (ClusterOperatorReporter ''openshift-marketplace'' ''marketplace'' ''4.12.0''),
      Log InfoLevel ''starting manager'',
      MgrStart,
      MgrStartReturned None,
      AwaitDone,
      DoneObserved]"
proof -
  have tr: "fst (OnStartedLeading pod_A ''openshift-marketplace'' ''pod-A'') =
     [Log InfoLevel ''became leader: pod-A'',
      Log InfoLevel ''registering components'',
      Log InfoLevel ''setting up the marketplace clusteroperator status reporter'',
      NewReporter ''openshift-marketplace'' ''marketplace'' ''4.12.0'',
      PopulateGlobals,
      Log InfoLevel ''setting up controllers'',
      AddToManager,
      Log InfoLevel ''starting the marketplace clusteroperator status reporter'',
      StartReporting
        (ClusterOperatorReporter ''openshift-marketplace'' ''marketplace'' ''4.12.0''),
      Log InfoLevel ''starting manager'',
      MgrStart,
      MgrStartReturned None,
      AwaitDone,
      DoneObserved]"
    by (simp add: OnStartedLeading_def run_def proc_defs startReporting_def pod_A_def)
  have ready: "episodeReady pod_A ''openshift-marketplace''"
    and returned: "mgrStart pod_A = Some None" "mgrStart pod_A \<noteq> None"
    and closed: "startReporting pod_A (episodeReporter pod_A ''openshift-marketplace'')"
    by (simp_all add: episodeReady_def episodeReporter_def startReporting_def pod_A_def)
  note claim = reporter_started_before_manager_and_awaited_after
    [of pod_A "''openshift-marketplace''" "''pod-A''" None]
  from claim ready returned
  have r: "MgrStartReturned None
      \<in> set (fst (OnStartedLeading pod_A ''openshift-marketplace'' ''pod-A''))"
    by blast
  from claim ready returned
  have w: "AwaitDone \<in> set (fst (OnStartedLeading pod_A ''openshift-marketplace'' ''pod-A''))"
    by blast
  from claim ready returned closed
  have finishes: "snd (OnStartedLeading pod_A ''openshift-marketplace'' ''pod-A'') = Inr ()"
    by blast
  with claim
  have l: "last (fst (OnStartedLeading pod_A ''openshift-marketplace'' ''pod-A'')) = DoneObserved"
    by blast
  from ready returned(1) closed r w finishes l tr show ?thesis by blast
qed

text \<open>
  Claim C5. If populating the default configuration (\<^verbatim>\<open>defaults.PopulateGlobals\<close>) fails
  during a leadership episode, the whole process terminates fatally: the callback does
  not return to the election loop but ends in \<^verbatim>\<open>os.Exit(1)\<close>, the manager is never
  started, and when the call was reached the last thing the process does is log the
  error at the fatal level.
\<close>

theorem populate_failure_is_fatal:
  "populateGlobals env = Some e \<Longrightarrow>
   snd (OnStartedLeading env ns ident) = Inl (Exit 1) \<and>
   MgrStart \<notin> set (fst (OnStartedLeading env ns ident)) \<and>
   (\<forall>r. StartReporting r \<notin> set (fst (OnStartedLeading env ns ident))) \<and>
   (clusterOperatorName env = [] \<or>
    newReporter env ns (clusterOperatorName env) (releaseVersion env) = None \<longrightarrow>
      PopulateGlobals \<in> set (fst (OnStartedLeading env ns ident)) \<and>
      last (fst (OnStartedLeading env ns ident)) = Log FatalLevel e)"
proof -
  assume failing: "populateGlobals env = Some e"
  have exits: "snd (OnStartedLeading env ns ident) = Inl (Exit 1)"
    using failing
    by (simp add: OnStartedLeading_def run_def snd_then_do snd_steps split: option.splits)
  have unstarted: "MgrStart \<notin> set (fst (OnStartedLeading env ns ident))"
    "\<forall>r. StartReporting r \<notin> set (fst (OnStartedLeading env ns ident))"
    using failing
    by (simp_all add: OnStartedLeading_def run_def proc_defs split: option.splits)
  have reached: "clusterOperatorName env = [] \<or>
      newReporter env ns (clusterOperatorName env) (releaseVersion env) = None \<longrightarrow>
        PopulateGlobals \<in> set (fst (OnStartedLeading env ns ident)) \<and>
        last (fst (OnStartedLeading env ns ident)) = Log FatalLevel e"
    using failing
    by (simp add: OnStartedLeading_def run_def proc_defs split: option.splits)
  from exits unstarted reached show ?thesis by blast
qed

theorem populate_failure_is_fatal_witness:
  "populateGlobals (pod_A\<lparr>populateGlobals := Some ''no defaults directory''\<rparr>)
     = Some ''no defaults directory'' \<and>
   newReporter (pod_A\<lparr>populateGlobals := Some ''no defaults directory''\<rparr>)
     ''openshift-marketplace'' ''marketplace'' ''4.12.0'' = None \<and>
   OnStartedLeading (pod_A\<lparr>populateGlobals := Some ''no defaults directory''\<rparr>)
       ''openshift-marketplace'' ''pod-A'' =
     ([Log InfoLevel ''became leader: pod-A'',
       Log InfoLevel ''registering components'',
       Log InfoLevel ''setting up the marketplace clusteroperator status reporter'',
       NewReporter ''openshift-marketplace'' ''marketplace'' ''4.12.0'',
       PopulateGlobals,
       Log FatalLevel ''no defaults directory''],
      Inl (Exit 1))"
proof -
  have failing: "populateGlobals (pod_A\<lparr>populateGlobals := Some ''no defaults directory''\<rparr>)
      = Some ''no defaults directory''"
    by simp
  have built: "newReporter (pod_A\<lparr>populateGlobals := Some ''no defaults directory''\<rparr>)
      ''openshift-marketplace'' ''marketplace'' ''4.12.0'' = None"
    by (simp add: pod_A_def)
  have tr: "fst (OnStartedLeading (pod_A\<lparr>populateGlobals := Some ''no defaults directory''\<rparr>)
       ''openshift-marketplace'' ''pod-A'') =
      [Log InfoLevel ''became leader: pod-A'',
       Log InfoLevel ''registering components'',
       Log InfoLevel ''setting up the marketplace clusteroperator status reporter'',
       NewReporter ''openshift-marketplace'' ''marketplace'' ''4.12.0'',
       PopulateGlobals,
       Log FatalLevel ''no defaults directory'']"
    by (simp add: OnStartedLeading_def run_def proc_defs pod_A_def)
  from populate_failure_is_fatal[OF failing, of "''openshift-marketplace''" "''pod-A''"]
  have "snd (OnStartedLeading (pod_A\<lparr>populateGlobals := Some ''no defaults directory''\<rparr>)
       ''openshift-marketplace'' ''pod-A'') = Inl (Exit 1)"
    by blast
  with failing built tr show ?thesis
    by (simp add: prod_eq_iff)
qed

text \<open>
  Claim C6. For every leadership episode: with an empty \<^verbatim>\<open>clusterOperatorName\<close> the
  routine never calls \<^verbatim>\<open>status.NewReporter\<close> and the reporter it starts is the no-op
  one; with a non-empty name it calls \<^verbatim>\<open>status.NewReporter\<close> with that name and the
  reporter it starts is the one constructed; a failure of the construction ends the
  process with \<^verbatim>\<open>logger.Fatal\<close>; and when no step before it fails, the reporter is
  started.
\<close>

theorem reporter_follows_clusterOperatorName:
  "(clusterOperatorName env = [] \<longrightarrow>
      (\<forall>a b c. NewReporter a b c \<notin> set (fst (run env ns))) \<and>
      (\<forall>r. StartReporting r \<in> set (fst (run env ns)) \<longrightarrow> r = NoOpReporter)) \<and>
   (clusterOperatorName env \<noteq> [] \<longrightarrow>
      NewReporter ns (clusterOperatorName env) (releaseVersion env) \<in> set (fst (run env ns)) \<and>
      (\<forall>r. StartReporting r \<in> set (fst (run env ns)) \<longrightarrow>
         r = ClusterOperatorReporter ns (clusterOperatorName env) (releaseVersion env))) \<and>
   (clusterOperatorName env \<noteq> [] \<and>
    newReporter env ns (clusterOperatorName env) (releaseVersion env) = Some e \<longrightarrow>
      run env ns =
        ([Log InfoLevel ''registering components'',
          Log InfoLevel ''setting up the marketplace clusteroperator status reporter'',
          NewReporter ns (clusterOperatorName env) (releaseVersion env),
          Log FatalLevel e],
         Inl (Exit 1))) \<and>
   ((clusterOperatorName env = [] \<or>
     newReporter env ns (clusterOperatorName env) (releaseVersion env) = None) \<and>
    populateGlobals env = None \<and> addToManager env = None \<longrightarrow>
      StartReporting
        (if clusterOperatorName env = [] then NoOpReporter
         else ClusterOperatorReporter ns (clusterOperatorName env) (releaseVersion env))
      \<in> set (fst (run env ns)))"
proof (cases "clusterOperatorName env = []")
  case True
  then show ?thesis
    by (simp add: run_def proc_defs split: option.splits)
next
  case False
  show ?thesis
  proof (cases "newReporter env ns (clusterOperatorName env) (releaseVersion env)")
    case None
    with False show ?thesis
      by (simp add: run_def proc_defs split: option.splits)
  next
    case (Some failure)
    with False show ?thesis
      by (simp add: run_def proc_defs)
  qed
qed

text \<open>
  The three cases at the sample: no name, the name \<^verbatim>\<open>marketplace\<close>, and that name with
  a constructor that fails.
\<close>

theorem reporter_follows_clusterOperatorName_witness:
  "clusterOperatorName (pod_A\<lparr>clusterOperatorName := []\<rparr>) = [] \<and>
   StartReporting NoOpReporter
     \<in> set (fst (run (pod_A\<lparr>clusterOperatorName := []\<rparr>) ''openshift-marketplace'')) \<and>
   clusterOperatorName pod_A \<noteq> [] \<and>
   NewReporter ''openshift-marketplace'' ''marketplace'' ''4.12.0''
     \<in> set (fst (run pod_A ''openshift-marketplace'')) \<and>
   StartReporting (ClusterOperatorReporter ''openshift-marketplace'' ''marketplace'' ''4.12.0'')
     \<in> set (fst (run pod_A ''openshift-marketplace'')) \<and>
   run (pod_A\<lparr>newReporter := (\<lambda>_ _ _. Some ''no such clusteroperator'')\<rparr>)
       ''openshift-marketplace'' =
     ([Log InfoLevel ''registering components'',
       Log InfoLevel ''setting up the marketplace clusteroperator status reporter'',
       NewReporter ''openshift-marketplace'' ''marketplace'' ''4.12.0'',
       Log FatalLevel ''no such clusteroperator''],
      Inl (Exit 1))"
proof -
  have none: "clusterOperatorName (pod_A\<lparr>clusterOperatorName := []\<rparr>) = []"
    and fine: "populateGlobals (pod_A\<lparr>clusterOperatorName := []\<rparr>) = None"
      "addToManager (pod_A\<lparr>clusterOperatorName := []\<rparr>) = None"
    by (simp_all add: pod_A_def)
  have named: "clusterOperatorName pod_A \<noteq> []" "clusterOperatorName pod_A = ''marketplace''"
    "releaseVersion pod_A = ''4.12.0''"
    "newReporter pod_A ''openshift-marketplace'' ''marketplace'' ''4.12.0'' = None"
    "populateGlobals pod_A = None" "addToManager pod_A = None"
    by (simp_all add: pod_A_def)
  have failing:
    "clusterOperatorName (pod_A\<lparr>newReporter := (\<lambda>_ _ _. Some ''no such clusteroperator'')\<rparr>)
       = ''marketplace''"
    "releaseVersion (pod_A\<lparr>newReporter := (\<lambda>_ _ _. Some ''no such clusteroperator'')\<rparr>)
       = ''4.12.0''"
    "newReporter (pod_A\<lparr>newReporter := (\<lambda>_ _ _. Some ''no such clusteroperator'')\<rparr>)
       ''openshift-marketplace'' ''marketplace'' ''4.12.0'' = Some ''no such clusteroperator''"
    by (simp_all add: pod_A_def)
  show ?thesis
    using reporter_follows_clusterOperatorName
            [of "pod_A\<lparr>clusterOperatorName := []\<rparr>" "''openshift-marketplace''"]
          reporter_follows_clusterOperatorName [of pod_A "''openshift-marketplace''"]
          reporter_follows_clusterOperatorName
            [of "pod_A\<lparr>newReporter := (\<lambda>_ _ _. Some ''no such clusteroperator'')\<rparr>"
                "''openshift-marketplace''" "''no such clusteroperator''"]
          none fine named failing
    by simp
qed

text \<open>
  Claim C7. If the blocking start of the reconciliation manager returns an error, the
  error is only logged (at the error level, "unable to run manager") and the routine
  goes on to wait for the reporter's completion signal: from the call of the manager on,
  the trace is the call, its return, the log entry and the receive, completed when the
  routine returns. The routine then returns or stays blocked in the receive; it never
  exits the process and nothing is logged at the fatal level.
\<close>

theorem manager_error_is_only_logged:
  "mgrStart env = Some (Some e) \<Longrightarrow> MgrStart \<in> set (fst (run env ns)) \<Longrightarrow>
   dropWhile (\<lambda>x. x \<noteq> MgrStart) (fst (run env ns)) =
     [MgrStart, MgrStartReturned (Some e),
      LogWithError ErrorLevel ''unable to run manager'' e, AwaitDone] @
     (if snd (run env ns) = Inr () then [DoneObserved] else []) \<and>
   (snd (run env ns) = Inr () \<or> snd (run env ns) = Inl Blocked) \<and>
   (\<forall>m. Log FatalLevel m \<notin> set (fst (run env ns)))"
proof -
  assume failing: "mgrStart env = Some (Some e)"
    and reached: "MgrStart \<in> set (fst (run env ns))"
  have built: "clusterOperatorName env = [] \<or>
      newReporter env ns (clusterOperatorName env) (releaseVersion env) = None"
    and populated: "populateGlobals env = None"
    and added: "addToManager env = None"
    using reached
    by (simp_all add: run_def proc_defs split: option.splits if_splits)
  show ?thesis
  proof (cases "clusterOperatorName env = []")
    case True
    with failing populated added show ?thesis
      by (simp add: run_def proc_defs startReporting_def)
  next
    case False
    with built have "newReporter env ns (clusterOperatorName env) (releaseVersion env) = None"
      by simp
    with False failing populated added show ?thesis
      by (simp add: run_def proc_defs startReporting_def)
  qed
qed

theorem manager_error_is_only_logged_witness:
  "mgrStart (pod_A\<lparr>mgrStart := Some (Some ''cache sync timed out'')\<rparr>)
     = Some (Some ''cache sync timed out'') \<and>
   MgrStart \<in> set (fst (run (pod_A\<lparr>mgrStart := Some (Some ''cache sync timed out'')\<rparr>)
                          ''openshift-marketplace'')) \<and>
   snd (run (pod_A\<lparr>mgrStart := Some (Some ''cache sync timed out'')\<rparr>)
          ''openshift-marketplace'') = Inr () \<and>
   dropWhile (\<lambda>x. x \<noteq> MgrStart)
       (fst (run (pod_A\<lparr>mgrStart := Some (Some ''cache sync timed out'')\<rparr>)
               ''openshift-marketplace'')) =
     [MgrStart, MgrStartReturned (Some ''cache sync timed out''),
      LogWithError ErrorLevel ''unable to run manager'' ''cache sync timed out'',
      AwaitDone, DoneObserved]"
proof -
  have failing: "mgrStart (pod_A\<lparr>mgrStart := Some (Some ''cache sync timed out'')\<rparr>)
      = Some (Some ''cache sync timed out'')"
    by simp
  have reached: "MgrStart \<in> set (fst (run (pod_A\<lparr>mgrStart := Some (Some ''cache sync timed out'')\<rparr>)
                          ''openshift-marketplace''))"
    by (simp add: run_def proc_defs startReporting_def pod_A_def)
  have returns: "snd (run (pod_A\<lparr>mgrStart := Some (Some ''cache sync timed out'')\<rparr>)
          ''openshift-marketplace'') = Inr ()"
    by (simp add: run_def proc_defs startReporting_def pod_A_def)
  show ?thesis
    using manager_error_is_only_logged[OF failing reached] failing reached returns
    by simp
qed

subsection \<open>Start-up\<close>

text \<open>
  Claim C4. The timing parameters the program hands to the election are the constants
  of lines 43-45, 90 s, 60 s and 30 s in nanoseconds, each within \<^verbatim>\<open>int64\<close>; they
  satisfy lease duration > renew deadline > retry period, pass the check at the start
  of the election, and the election runs with them. A configuration whose lease
  duration is at or below the renew deadline is rejected at start-up rather than run
  with: whatever the signals, the process makes no step of the election, never leads,
  starts no episode and ends with a non-zero status.
\<close>

theorem timing_parameters_ordered:
  "(snd (bootstrap env) = Inr el \<longrightarrow>
      LeaseDuration (elConfig el) = 90 * Second \<and>
      RenewDeadline (elConfig el) = 60 * Second \<and>
      RetryPeriod (elConfig el) = 30 * Second \<and>
      Second = 1000000000 \<and>
      RetryPeriod (elConfig el) < RenewDeadline (elConfig el) \<and>
      RenewDeadline (elConfig el) < LeaseDuration (elConfig el) \<and>
      \<not> LeaseDuration (elConfig el) \<le> RenewDeadline (elConfig el) \<and>
      int64_range (LeaseDuration (elConfig el)) \<and>
      int64_range (RenewDeadline (elConfig el)) \<and>
      int64_range (RetryPeriod (elConfig el)) \<and>
      \<not> timingRejected (elConfig el) \<and>
      RunOrDie env el ss = foldl (step env el) initial ss) \<and>
   (LeaseDuration (elConfig bad) \<le> RenewDeadline (elConfig bad) \<longrightarrow>
      RunOrDie env bad ss =
        \<lparr>current = Finished, rootCancelled = False, started = 0, stopped = 0,
         exited = Some 2\<rparr> \<and>
      current (RunOrDie env bad ss) \<noteq> Leading \<and>
      started (RunOrDie env bad ss) = 0 \<and>
      (\<exists>n. exited (RunOrDie env bad ss) = Some n \<and> n \<noteq> 0))"
proof -
  have good: "snd (bootstrap env) = Inr el \<longrightarrow>
      LeaseDuration (elConfig el) = 90 * Second \<and>
      RenewDeadline (elConfig el) = 60 * Second \<and>
      RetryPeriod (elConfig el) = 30 * Second \<and>
      Second = 1000000000 \<and>
      RetryPeriod (elConfig el) < RenewDeadline (elConfig el) \<and>
      RenewDeadline (elConfig el) < LeaseDuration (elConfig el) \<and>
      \<not> LeaseDuration (elConfig el) \<le> RenewDeadline (elConfig el) \<and>
      int64_range (LeaseDuration (elConfig el)) \<and>
      int64_range (RenewDeadline (elConfig el)) \<and>
      int64_range (RetryPeriod (elConfig el)) \<and>
      \<not> timingRejected (elConfig el) \<and>
      RunOrDie env el ss = foldl (step env el) initial ss"
    using bootstrap_returns(5)[of env el]
    by (simp add: defaultLeaseDuration_def defaultRenewDeadline_def defaultRetryPeriod_def
        Second_def int64_range_def timingRejected_def RunOrDie_def)
  have rejected: "LeaseDuration (elConfig bad) \<le> RenewDeadline (elConfig bad) \<longrightarrow>
      RunOrDie env bad ss =
        \<lparr>current = Finished, rootCancelled = False, started = 0, stopped = 0,
         exited = Some 2\<rparr> \<and>
      current (RunOrDie env bad ss) \<noteq> Leading \<and>
      started (RunOrDie env bad ss) = 0 \<and>
      (\<exists>n. exited (RunOrDie env bad ss) = Some n \<and> n \<noteq> 0)"
    by (simp add: RunOrDie_def timingRejected_def initial_def)
  from good rejected show ?thesis by blast
qed

text \<open>
  The claim at the sample: the configuration of \<open>pod_A\<close> is the ordered one and the
  election runs with it (granted the lock, the process leads); the same configuration
  with the lease duration lowered to the renew deadline, the boundary, is rejected even
  when the lock would be granted.
\<close>

theorem timing_parameters_ordered_witness:
  "snd (bootstrap pod_A) = Inr election_A \<and>
   LeaseDuration (elConfig election_A) = 90000000000 \<and>
   RenewDeadline (elConfig election_A) = 60000000000 \<and>
   RetryPeriod (elConfig election_A) = 30000000000 \<and>
   RetryPeriod (elConfig election_A) < RenewDeadline (elConfig election_A) \<and>
   RenewDeadline (elConfig election_A) < LeaseDuration (elConfig election_A) \<and>
   RunOrDie pod_A election_A [AcquireGranted] =
     foldl (step pod_A election_A) initial [AcquireGranted] \<and>
   LeaseDuration
     (elConfig (election_A\<lparr>elConfig := (elConfig election_A)\<lparr>LeaseDuration := 60000000000\<rparr>\<rparr>))
     \<le> RenewDeadline
     (elConfig (election_A\<lparr>elConfig := (elConfig election_A)\<lparr>LeaseDuration := 60000000000\<rparr>\<rparr>)) \<and>
   RunOrDie pod_A
     (election_A\<lparr>elConfig := (elConfig election_A)\<lparr>LeaseDuration := 60000000000\<rparr>\<rparr>)
     [AcquireGranted] =
     \<lparr>current = Finished, rootCancelled = False, started = 0, stopped = 0, exited = Some 2\<rparr>"
proof -
  let ?bad = "election_A\<lparr>elConfig := (elConfig election_A)\<lparr>LeaseDuration := 60000000000\<rparr>\<rparr>"
  have boundary: "LeaseDuration (elConfig ?bad) \<le> RenewDeadline (elConfig ?bad)"
    by (simp add: election_A_def)
  note claim = timing_parameters_ordered [of pod_A election_A "[AcquireGranted]" ?bad]
  from claim bootstrap_pod_A
  have good: "LeaseDuration (elConfig election_A) = 90 * Second"
    "RenewDeadline (elConfig election_A) = 60 * Second"
    "RetryPeriod (elConfig election_A) = 30 * Second"
    "Second = 1000000000"
    "RetryPeriod (elConfig election_A) < RenewDeadline (elConfig election_A)"
    "RenewDeadline (elConfig election_A) < LeaseDuration (elConfig election_A)"
    "RunOrDie pod_A election_A [AcquireGranted] =
       foldl (step pod_A election_A) initial [AcquireGranted]"
    by blast+
  from claim boundary
  have bad: "RunOrDie pod_A ?bad [AcquireGranted] =
     \<lparr>current = Finished, rootCancelled = False, started = 0, stopped = 0, exited = Some 2\<rparr>"
    by blast
  have nanos: "LeaseDuration (elConfig election_A) = 90000000000"
    "RenewDeadline (elConfig election_A) = 60000000000"
    "RetryPeriod (elConfig election_A) = 30000000000"
    using good(1-4) by simp_all
  from bootstrap_pod_A nanos good(5-7) boundary bad show ?thesis by blast
qed

text \<open>
  Claim C8, as stated, fails: the process identity is the value of \<^verbatim>\<open>POD_NAME\<close>, or the
  host name when that value is empty, but nothing checks the host name. With
  \<^verbatim>\<open>POD_NAME\<close> unset and \<^verbatim>\<open>os.Hostname\<close> returning the empty string and no error,
  start-up completes and the lock is built with the empty identity.
\<close>

theorem identity_nonempty_counterexample:
  "podName (pod_A\<lparr>podName := [], osHostname := Inr []\<rparr>) = [] \<and>
   osHostname (pod_A\<lparr>podName := [], osHostname := Inr []\<rparr>) = Inr [] \<and>
   snd (resolveIdentity (pod_A\<lparr>podName := [], osHostname := Inr []\<rparr>)) = Inr [] \<and>
   snd (bootstrap (pod_A\<lparr>podName := [], osHostname := Inr []\<rparr>)) =
     Inr (election_A
           \<lparr>elIdentity := [],
            elConfig := (elConfig election_A)
              \<lparr>Lock := (Lock (elConfig election_A))
                 \<lparr>lockIdentity := [], eventComponent := []\<rparr>\<rparr>\<rparr>)"
  by (simp add: snd_bootstrap snd_resolveIdentity pod_A_def election_A_def
      sampleParseLevel_def asciiLower_def defaultLeaderElectionConfigMapName_def
      defaultLeaseDuration_def defaultRenewDeadline_def defaultRetryPeriod_def Second_def)

text \<open>
  Claim C8, amended. The process identity is the value of \<^verbatim>\<open>POD_NAME\<close> when that is
  non-empty (the host name is then not asked for), and otherwise whatever
  \<^verbatim>\<open>os.Hostname\<close> returns, after a warning; it is non-empty whenever \<^verbatim>\<open>POD_NAME\<close> or
  the returned host name is. A failure to resolve the host name is logged at the fatal
  level and ends the process with status 1, so start-up does not complete. When
  start-up completes, the identity is the owner of the lock and the component name of
  its event recorder.
\<close>

theorem identity_from_pod_name_or_hostname:
  "(podName env \<noteq> [] \<longrightarrow>
      resolveIdentity env = ([], Inr (podName env))) \<and>
   (podName env = [] \<and> osHostname env = Inr h \<longrightarrow>
      resolveIdentity env =
        ([Log WarnLevel ''failed to determine $POD_NAME falling back to hostname'',
          Hostname],
         Inr h)) \<and>
   (podName env = [] \<and> osHostname env = Inl e \<longrightarrow>
      resolveIdentity env =
        ([Log WarnLevel ''failed to determine $POD_NAME falling back to hostname'',
          Hostname,
          Log FatalLevel e],
         Inl (Exit 1)) \<and>
      (\<forall>el. snd (bootstrap env) \<noteq> Inr el)) \<and>
   (snd (resolveIdentity env) = Inr ident \<and> (podName env \<noteq> [] \<or> osHostname env \<noteq> Inr []) \<longrightarrow>
      ident \<noteq> []) \<and>
   (snd (bootstrap env) = Inr el \<longrightarrow>
      snd (resolveIdentity env) = Inr (elIdentity el) \<and>
      lockIdentity (Lock (elConfig el)) = elIdentity el \<and>
      eventComponent (Lock (elConfig el)) = elIdentity el)"
proof -
  have named: "podName env \<noteq> [] \<longrightarrow>
      resolveIdentity env = ([], Inr (podName env))"
    by (simp add: resolveIdentity_def proc_defs)
  have host: "podName env = [] \<and> osHostname env = Inr h \<longrightarrow>
      resolveIdentity env =
        ([Log WarnLevel ''failed to determine $POD_NAME falling back to hostname'',
          Hostname],
         Inr h)"
    by (simp add: resolveIdentity_def proc_defs)
  have nohost: "podName env = [] \<and> osHostname env = Inl e \<longrightarrow>
      resolveIdentity env =
        ([Log WarnLevel ''failed to determine $POD_NAME falling back to hostname'',
          Hostname,
          Log FatalLevel e],
         Inl (Exit 1))"
    by (simp add: resolveIdentity_def proc_defs)
  have stops: "podName env = [] \<and> osHostname env = Inl e \<longrightarrow> (\<forall>el. snd (bootstrap env) \<noteq> Inr el)"
    using bootstrap_returns(1)[of env] by (auto simp add: snd_resolveIdentity)
  have nonempty: "snd (resolveIdentity env) = Inr ident \<and>
      (podName env \<noteq> [] \<or> osHostname env \<noteq> Inr []) \<longrightarrow> ident \<noteq> []"
    by (auto simp add: snd_resolveIdentity split: if_splits sum.splits)
  have used: "snd (bootstrap env) = Inr el \<longrightarrow>
      snd (resolveIdentity env) = Inr (elIdentity el) \<and>
      lockIdentity (Lock (elConfig el)) = elIdentity el \<and>
      eventComponent (Lock (elConfig el)) = elIdentity el"
    using bootstrap_returns(1,5)[of env el] by simp
  from named host nohost stops nonempty used show ?thesis by blast
qed

text \<open>
  The amended claim at the sample: named by \<^verbatim>\<open>POD_NAME\<close>; named by the host; and with
  no name and no host name, where start-up ends in \<^verbatim>\<open>os.Exit(1)\<close>.
\<close>

theorem identity_from_pod_name_or_hostname_witness:
  "podName pod_A \<noteq> [] \<and>
   resolveIdentity pod_A = ([], Inr ''pod-A'') \<and>
   snd (bootstrap pod_A) = Inr election_A \<and>
   lockIdentity (Lock (elConfig election_A)) = ''pod-A'' \<and>
   podName (pod_A\<lparr>podName := []\<rparr>) = [] \<and>
   osHostname (pod_A\<lparr>podName := []\<rparr>) = Inr ''host-A'' \<and>
   snd (resolveIdentity (pod_A\<lparr>podName := []\<rparr>)) = Inr ''host-A'' \<and>
   osHostname (pod_A\<lparr>podName := [], osHostname := Inl ''no hostname''\<rparr>) = Inl ''no hostname'' \<and>
   snd (resolveIdentity (pod_A\<lparr>podName := [], osHostname := Inl ''no hostname''\<rparr>))
     = Inl (Exit 1) \<and>
   snd (bootstrap (pod_A\<lparr>podName := [], osHostname := Inl ''no hostname''\<rparr>)) = Inl (Exit 1)"
proof -
  have a: "podName pod_A \<noteq> []" "podName pod_A = ''pod-A''"
    by (simp_all add: pod_A_def)
  have b: "podName (pod_A\<lparr>podName := []\<rparr>) = []"
    "osHostname (pod_A\<lparr>podName := []\<rparr>) = Inr ''host-A''"
    by (simp_all add: pod_A_def)
  have c: "podName (pod_A\<lparr>podName := [], osHostname := Inl ''no hostname''\<rparr>) = []"
    "osHostname (pod_A\<lparr>podName := [], osHostname := Inl ''no hostname''\<rparr>) = Inl ''no hostname''"
    by simp_all
  have d: "snd (bootstrap (pod_A\<lparr>podName := [], osHostname := Inl ''no hostname''\<rparr>))
      = Inl (Exit 1)"
    by (simp add: snd_bootstrap pod_A_def sampleParseLevel_def asciiLower_def)
  show ?thesis
    using identity_from_pod_name_or_hostname [of pod_A _ _ _ election_A]
          identity_from_pod_name_or_hostname [of "pod_A\<lparr>podName := []\<rparr>" "''host-A''"]
          identity_from_pod_name_or_hostname
            [of "pod_A\<lparr>podName := [], osHostname := Inl ''no hostname''\<rparr>" _ "''no hostname''"]
          a b c d bootstrap_pod_A
    by (simp add: election_A_def)
qed

text \<open>
  Claim C9, as stated, fails: the log level is parsed before the version flag is looked
  at (lines 89-100), so with the version flag set and a level that does not parse the
  process logs the parse error and exits with status 1, not 0.
\<close>

theorem version_exit_counterexample:
  "flagParse (pod_A\<lparr>versionFlag := True, loglvl := ''verbose''\<rparr>) = FlagsParsed \<and>
   versionFlag (pod_A\<lparr>versionFlag := True, loglvl := ''verbose''\<rparr>) \<and>
   parseLevel (pod_A\<lparr>versionFlag := True, loglvl := ''verbose''\<rparr>) ''verbose''
     = Inl (''not a valid logrus Level: '' @ [CHR 0x22] @ ''verbose'' @ [CHR 0x22]) \<and>
   bootstrap (pod_A\<lparr>versionFlag := True, loglvl := ''verbose''\<rparr>) =
     ([Log InfoLevel ''Go Version: go1.18'',
       Log InfoLevel ''Go OS/Arch: linux/amd64'',
       FlagParse,
       Log ErrorLevel (''not a valid logrus Level: '' @ [CHR 0x22] @ ''verbose'' @ [CHR 0x22])],
      Inl (Exit 1)) \<and>
   exit_status (Exit 1) \<noteq> Some 0"
  by (simp add: bootstrap_def printVersion_def proc_defs pod_A_def sampleParseLevel_def
      asciiLower_def exit_status_def)

text \<open>
  Claim C9, amended. When the command line parses, the version flag is set and the log
  level parses, the process logs the source commit and exits with status 0 before any
  collaborator is set up. A log level that does not parse makes it exit with status 1,
  version flag or not. Every failing collaborator of start-up makes the process exit
  non-zero: status 1 through \<^verbatim>\<open>logger.Fatal\<close>, status 2 for a panic in the scheme
  registration; when none fails, start-up reaches the election. Before all of this,
  \<^verbatim>\<open>flag.Parse\<close> ends the process with status 2 on a command line that does not parse
  and with status 0 on a request for the usage. So start-up ends with status 0 only on
  the version query or the usage request.
\<close>

theorem exit_codes_of_startup:
  "(flagParse env = FlagHelp \<longrightarrow>
      bootstrap env =
        ([Log InfoLevel (''Go Version: '' @ goVersion env),
          Log InfoLevel (''Go OS/Arch: '' @ goOS env @ ''/'' @ goArch env),
          FlagParse],
         Inl (Exit 0))) \<and>
   (flagParse env = FlagError fe \<longrightarrow> snd (bootstrap env) = Inl (Exit 2)) \<and>
   (flagParse env = FlagsParsed \<and> parseLevel env (loglvl env) = Inl e \<longrightarrow>
      bootstrap env =
        ([Log InfoLevel (''Go Version: '' @ goVersion env),
          Log InfoLevel (''Go OS/Arch: '' @ goOS env @ ''/'' @ goArch env),
          FlagParse,
          Log ErrorLevel e],
         Inl (Exit 1))) \<and>
   (flagParse env = FlagsParsed \<and> parseLevel env (loglvl env) = Inr l \<and> versionFlag env \<longrightarrow>
      bootstrap env =
        ([Log InfoLevel (''Go Version: '' @ goVersion env),
          Log InfoLevel (''Go OS/Arch: '' @ goOS env @ ''/'' @ goArch env),
          FlagParse,
          SetLevel l,
          Log InfoLevel (sourceCommit env)],
         Inl (Exit 0))) \<and>
   (flagParse env = FlagsParsed \<and> parseLevel env (loglvl env) = Inr l \<and> \<not> versionFlag env \<longrightarrow>
      snd (bootstrap env) =
        (if servePrometheus env (tlsCertPath env) (tlsKeyPath env) \<noteq> None then Inl (Exit 1)
         else
         (case getWatchNamespace env of
            Inl e \<Rightarrow> Inl (Exit 1)
          | Inr namespace \<Rightarrow>
         if getConfig env \<noteq> None then Inl (Exit 1)
         else if setConfigAPIAvailability env \<noteq> None then Inl (Exit 1)
         else
         (case apisAddToScheme env of Some e \<Rightarrow> Inl (Panicked e) | None \<Rightarrow>
         (case olmAddToScheme env of Some e \<Rightarrow> Inl (Panicked e) | None \<Rightarrow>
         (case corev1AddToScheme env of Some e \<Rightarrow> Inl (Panicked e) | None \<Rightarrow>
         (case (if isAPIAvailable env then apiconfigAddToScheme env else None) of
            Some e \<Rightarrow> Inl (Panicked e)
          | None \<Rightarrow>
         if managerNew env \<noteq> None then Inl (Exit 1)
         else if newForConfig env \<noteq> None then Inl (Exit 1)
         else
         (case (if podName env = [] then osHostname env else Inr (podName env)) of
            Inl e \<Rightarrow> Inl (Exit 1)
          | Inr ident \<Rightarrow>
         if resourcelockNew env (leaderElectionNamespace env)
              defaultLeaderElectionConfigMapName ident \<noteq> None
         then Inl (Exit 1)
         else
           Inr \<lparr>elNamespace = namespace,
                elIdentity = ident,
                elConfig =
                  \<lparr>Lock = \<lparr>lockNamespace = leaderElectionNamespace env,
                            lockName = defaultLeaderElectionConfigMapName,
                            lockIdentity = ident,
                            eventComponent = ident\<rparr>,
                   ReleaseOnCancel = True,
                   LeaseDuration = defaultLeaseDuration,
                   RenewDeadline = defaultRenewDeadline,
                   RetryPeriod = defaultRetryPeriod\<rparr>\<rparr>)))))))) \<and>
   (snd (bootstrap env) = Inl out \<longrightarrow>
      (\<exists>n. exit_status out = Some n) \<and>
      (exit_status out = Some 0 \<longleftrightarrow>
         flagParse env = FlagHelp \<or>
         (flagParse env = FlagsParsed \<and> versionFlag env \<and>
          (\<exists>l. parseLevel env (loglvl env) = Inr l))))"
proof -
  have usage: "flagParse env = FlagHelp \<longrightarrow>
      bootstrap env =
        ([Log InfoLevel (''Go Version: '' @ goVersion env),
          Log InfoLevel (''Go OS/Arch: '' @ goOS env @ ''/'' @ goArch env),
          FlagParse],
         Inl (Exit 0))"
    by (simp add: bootstrap_def printVersion_def proc_defs)
  have malformed: "flagParse env = FlagError fe \<longrightarrow> snd (bootstrap env) = Inl (Exit 2)"
    by (simp add: snd_bootstrap)
  have level: "flagParse env = FlagsParsed \<and> parseLevel env (loglvl env) = Inl e \<longrightarrow>
      bootstrap env =
        ([Log InfoLevel (''Go Version: '' @ goVersion env),
          Log InfoLevel (''Go OS/Arch: '' @ goOS env @ ''/'' @ goArch env),
          FlagParse,
          Log ErrorLevel e],
         Inl (Exit 1))"
    by (simp add: bootstrap_def printVersion_def proc_defs)
  have asked: "flagParse env = FlagsParsed \<and> parseLevel env (loglvl env) = Inr l \<and>
      versionFlag env \<longrightarrow>
      bootstrap env =
        ([Log InfoLevel (''Go Version: '' @ goVersion env),
          Log InfoLevel (''Go OS/Arch: '' @ goOS env @ ''/'' @ goArch env),
          FlagParse,
          SetLevel l,
          Log InfoLevel (sourceCommit env)],
         Inl (Exit 0))"
    by (simp add: bootstrap_def printVersion_def proc_defs)
  have collaborators: "flagParse env = FlagsParsed \<and> parseLevel env (loglvl env) = Inr l \<and>
      \<not> versionFlag env \<longrightarrow>
      snd (bootstrap env) =
        (if servePrometheus env (tlsCertPath env) (tlsKeyPath env) \<noteq> None then Inl (Exit 1)
         else
         (case getWatchNamespace env of
            Inl e \<Rightarrow> Inl (Exit 1)
          | Inr namespace \<Rightarrow>
         if getConfig env \<noteq> None then Inl (Exit 1)
         else if setConfigAPIAvailability env \<noteq> None then Inl (Exit 1)
         else
         (case apisAddToScheme env of Some e \<Rightarrow> Inl (Panicked e) | None \<Rightarrow>
         (case olmAddToScheme env of Some e \<Rightarrow> Inl (Panicked e) | None \<Rightarrow>
         (case corev1AddToScheme env of Some e \<Rightarrow> Inl (Panicked e) | None \<Rightarrow>
         (case (if isAPIAvailable env then apiconfigAddToScheme env else None) of
            Some e \<Rightarrow> Inl (Panicked e)
          | None \<Rightarrow>
         if managerNew env \<noteq> None then Inl (Exit 1)
         else if newForConfig env \<noteq> None then Inl (Exit 1)
         else
         (case (if podName env = [] then osHostname env else Inr (podName env)) of
            Inl e \<Rightarrow> Inl (Exit 1)
          | Inr ident \<Rightarrow>
         if resourcelockNew env (leaderElectionNamespace env)
              defaultLeaderElectionConfigMapName ident \<noteq> None
         then Inl (Exit 1)
         else
           Inr \<lparr>elNamespace = namespace,
                elIdentity = ident,
                elConfig =
                  \<lparr>Lock = \<lparr>lockNamespace = leaderElectionNamespace env,
                            lockName = defaultLeaderElectionConfigMapName,
                            lockIdentity = ident,
                            eventComponent = ident\<rparr>,
                   ReleaseOnCancel = True,
                   LeaseDuration = defaultLeaseDuration,
                   RenewDeadline = defaultRenewDeadline,
                   RetryPeriod = defaultRetryPeriod\<rparr>\<rparr>)))))))"
  proof
    assume "flagParse env = FlagsParsed \<and> parseLevel env (loglvl env) = Inr l \<and>
      \<not> versionFlag env"
    then show "snd (bootstrap env) =
        (if servePrometheus env (tlsCertPath env) (tlsKeyPath env) \<noteq> None then Inl (Exit 1)
         else
         (case getWatchNamespace env of
            Inl e \<Rightarrow> Inl (Exit 1)
          | Inr namespace \<Rightarrow>
         if getConfig env \<noteq> None then Inl (Exit 1)
         else if setConfigAPIAvailability env \<noteq> None then Inl (Exit 1)
         else
         (case apisAddToScheme env of Some e \<Rightarrow> Inl (Panicked e) | None \<Rightarrow>
         (case olmAddToScheme env of Some e \<Rightarrow> Inl (Panicked e) | None \<Rightarrow>
         (case corev1AddToScheme env of Some e \<Rightarrow> Inl (Panicked e) | None \<Rightarrow>
         (case (if isAPIAvailable env then apiconfigAddToScheme env else None) of
            Some e \<Rightarrow> Inl (Panicked e)
          | None \<Rightarrow>
         if managerNew env \<noteq> None then Inl (Exit 1)
         else if newForConfig env \<noteq> None then Inl (Exit 1)
         else
         (case (if podName env = [] then osHostname env else Inr (podName env)) of
            Inl e \<Rightarrow> Inl (Exit 1)
          | Inr ident \<Rightarrow>
         if resourcelockNew env (leaderElectionNamespace env)
              defaultLeaderElectionConfigMapName ident \<noteq> None
         then Inl (Exit 1)
         else
           Inr \<lparr>elNamespace = namespace,
                elIdentity = ident,
                elConfig =
                  \<lparr>Lock = \<lparr>lockNamespace = leaderElectionNamespace env,
                            lockName = defaultLeaderElectionConfigMapName,
                            lockIdentity = ident,
                            eventComponent = ident\<rparr>,
                   ReleaseOnCancel = True,
                   LeaseDuration = defaultLeaseDuration,
                   RenewDeadline = defaultRenewDeadline,
                   RetryPeriod = defaultRetryPeriod\<rparr>\<rparr>)))))))"
      by (simp only: snd_bootstrap flagOutcome.case sum.case if_False)
  qed
  have status: "snd (bootstrap env) = Inl out \<longrightarrow>
      (\<exists>n. exit_status out = Some n) \<and>
      (exit_status out = Some 0 \<longleftrightarrow>
         flagParse env = FlagHelp \<or>
         (flagParse env = FlagsParsed \<and> versionFlag env \<and>
          (\<exists>l. parseLevel env (loglvl env) = Inr l)))"
  proof
    assume stop: "snd (bootstrap env) = Inl out"
    show "(\<exists>n. exit_status out = Some n) \<and>
      (exit_status out = Some 0 \<longleftrightarrow>
         flagParse env = FlagHelp \<or>
         (flagParse env = FlagsParsed \<and> versionFlag env \<and>
          (\<exists>l. parseLevel env (loglvl env) = Inr l)))"
    proof (cases "flagParse env")
      case FlagHelp
      then have "snd (bootstrap env) = Inl (Exit 0)"
        by (simp add: snd_bootstrap)
      with stop have "exit_status out = Some 0"
        by (auto simp add: exit_status_def)
      with FlagHelp show ?thesis
        by simp
    next
      case (FlagError fe)
      then have "snd (bootstrap env) = Inl (Exit 2)"
        by (simp add: snd_bootstrap)
      with stop have "exit_status out = Some 2"
        by (auto simp add: exit_status_def)
      with FlagError show ?thesis
        by simp
    next
      case FlagsParsed
      show ?thesis
      proof (cases "versionFlag env \<and> (\<exists>l. parseLevel env (loglvl env) = Inr l)")
        case True
        with FlagsParsed have "snd (bootstrap env) = Inl (Exit 0)"
          by (auto simp add: snd_bootstrap)
        with stop have "exit_status out = Some 0"
          by (auto simp add: exit_status_def)
        with FlagsParsed True show ?thesis
          by simp
      next
        case False
        from FlagsParsed have "flagParse env \<noteq> FlagHelp"
          by simp
        from bootstrap_stops[OF stop this False]
        have "out = Exit 1 \<or> out = Exit 2 \<or> (\<exists>e. out = Panicked e)" .
        then have "\<exists>n. exit_status out = Some n \<and> n \<noteq> 0"
          by (auto simp add: exit_status_def)
        with FlagsParsed False show ?thesis
          by auto
      qed
    qed
  qed
  show ?thesis
    by (intro conjI) (rule usage, rule malformed, rule level, rule asked, rule collaborators,
      rule status)
qed

text \<open>
  The amended claim at the sample: the usage request, a command line that does not
  parse, the version query (with the level in upper case, which logrus accepts), a
  level that does not parse, a manager that cannot be built (\<^verbatim>\<open>logger.Fatal\<close>, status
  1) and a scheme that cannot be registered (a panic, status 2).
\<close>

theorem exit_codes_of_startup_witness:
  "flagParse (pod_A\<lparr>flagParse := FlagHelp\<rparr>) = FlagHelp \<and>
   snd (bootstrap (pod_A\<lparr>flagParse := FlagHelp\<rparr>)) = Inl (Exit 0) \<and>
   flagParse (pod_A\<lparr>flagParse := FlagError ''flag provided but not defined: -verbose''\<rparr>)
     = FlagError ''flag provided but not defined: -verbose'' \<and>
   snd (bootstrap (pod_A\<lparr>flagParse := FlagError ''flag provided but not defined: -verbose''\<rparr>))
     = Inl (Exit 2) \<and>
   parseLevel (pod_A\<lparr>versionFlag := True, loglvl := ''INFO''\<rparr>)
       (loglvl (pod_A\<lparr>versionFlag := True, loglvl := ''INFO''\<rparr>)) = Inr InfoLevel \<and>
   versionFlag (pod_A\<lparr>versionFlag := True, loglvl := ''INFO''\<rparr>) \<and>
   bootstrap (pod_A\<lparr>versionFlag := True, loglvl := ''INFO''\<rparr>) =
     ([Log InfoLevel ''Go Version: go1.18'',
       Log InfoLevel ''Go OS/Arch: linux/amd64'',
       FlagParse,
       SetLevel InfoLevel,
       Log InfoLevel ''abc123''],
      Inl (Exit 0)) \<and>
   parseLevel (pod_A\<lparr>loglvl := ''verbose''\<rparr>) (loglvl (pod_A\<lparr>loglvl := ''verbose''\<rparr>))
     = Inl (''not a valid logrus Level: '' @ [CHR 0x22] @ ''verbose'' @ [CHR 0x22]) \<and>
   snd (bootstrap (pod_A\<lparr>loglvl := ''verbose''\<rparr>)) = Inl (Exit 1) \<and>
   managerNew (pod_A\<lparr>managerNew := Some ''no API server''\<rparr>) \<noteq> None \<and>
   snd (bootstrap (pod_A\<lparr>managerNew := Some ''no API server''\<rparr>)) = Inl (Exit 1) \<and>
   exit_status (Exit 1) = Some 1 \<and>
   snd (bootstrap (pod_A\<lparr>olmAddToScheme := Some ''already registered''\<rparr>))
     = Inl (Panicked ''already registered'') \<and>
   exit_status (Panicked ''already registered'') = Some 2"
proof -
  let ?usage = "pod_A\<lparr>flagParse := FlagHelp\<rparr>"
  let ?undefined = "pod_A\<lparr>flagParse := FlagError ''flag provided but not defined: -verbose''\<rparr>"
  let ?query = "pod_A\<lparr>versionFlag := True, loglvl := ''INFO''\<rparr>"
  let ?verbose = "pod_A\<lparr>loglvl := ''verbose''\<rparr>"
  let ?nomanager = "pod_A\<lparr>managerNew := Some ''no API server''\<rparr>"
  let ?noscheme = "pod_A\<lparr>olmAddToScheme := Some ''already registered''\<rparr>"
  have requested: "flagParse ?usage = FlagHelp"
    by simp
  from exit_codes_of_startup [of ?usage] requested
  have a: "snd (bootstrap ?usage) = Inl (Exit 0)"
    by simp
  have undefined: "flagParse ?undefined = FlagError ''flag provided but not defined: -verbose''"
    by simp
  from exit_codes_of_startup [of ?undefined "''flag provided but not defined: -verbose''"]
    undefined
  have b: "snd (bootstrap ?undefined) = Inl (Exit 2)"
    by blast
  have query: "flagParse ?query = FlagsParsed"
    "parseLevel ?query (loglvl ?query) = Inr InfoLevel" "versionFlag ?query"
    "goVersion ?query = ''go1.18''" "goOS ?query = ''linux''" "goArch ?query = ''amd64''"
    "sourceCommit ?query = ''abc123''"
    by (simp_all add: pod_A_def sampleParseLevel_def asciiLower_def)
  from conjunct1 [OF conjunct2 [OF conjunct2 [OF conjunct2
      [OF exit_codes_of_startup [of ?query _ _ InfoLevel]]]]] query(1-3)
  have "bootstrap ?query =
        ([Log InfoLevel (''Go Version: '' @ goVersion ?query),
          Log InfoLevel (''Go OS/Arch: '' @ goOS ?query @ ''/'' @ goArch ?query),
          FlagParse,
          SetLevel InfoLevel,
          Log InfoLevel (sourceCommit ?query)],
         Inl (Exit 0))"
    by blast
  then have c: "bootstrap ?query =
     ([Log InfoLevel ''Go Version: go1.18'',
       Log InfoLevel ''Go OS/Arch: linux/amd64'',
       FlagParse,
       SetLevel InfoLevel,
       Log InfoLevel ''abc123''],
      Inl (Exit 0))"
    by (simp add: query(4-7))
  have verbose: "flagParse ?verbose = FlagsParsed"
    "parseLevel ?verbose (loglvl ?verbose)
       = Inl (''not a valid logrus Level: '' @ [CHR 0x22] @ ''verbose'' @ [CHR 0x22])"
    by (simp_all add: pod_A_def sampleParseLevel_def asciiLower_def)
  from conjunct1 [OF conjunct2 [OF conjunct2
      [OF exit_codes_of_startup
         [of ?verbose _ "''not a valid logrus Level: '' @ [CHR 0x22] @ ''verbose'' @ [CHR 0x22]"]]]]
    verbose
  have d: "snd (bootstrap ?verbose) = Inl (Exit 1)"
    by simp
  have nomanager: "managerNew ?nomanager \<noteq> None"
    "snd (bootstrap ?nomanager) = Inl (Exit 1)"
    by (simp_all add: snd_bootstrap pod_A_def sampleParseLevel_def asciiLower_def)
  from exit_codes_of_startup [of ?nomanager _ _ _ "Exit 1"] nomanager(2)
  have e: "\<exists>n. exit_status (Exit 1) = Some n"
    by blast
  then have e': "exit_status (Exit 1) = Some 1"
    by (simp add: exit_status_def)
  have noscheme: "snd (bootstrap ?noscheme) = Inl (Panicked ''already registered'')"
    by (simp add: snd_bootstrap pod_A_def sampleParseLevel_def asciiLower_def)
  have f: "exit_status (Panicked ''already registered'') = Some 2"
    by (simp add: exit_status_def)
  from requested a undefined b query(2,3) c verbose(2) d nomanager e' noscheme f
  show ?thesis by blast
qed

subsection \<open>The callbacks and the election loop\<close>

text \<open>
  Claim C10. For every invocation of the \<^verbatim>\<open>OnNewLeader\<close> handler: when the reported
  leader is this process's own identity it returns at once and makes no call at all;
  otherwise its one call is the log entry naming the observed leader, at the info
  level. Either way it returns normally and leaves the program's state alone: it makes
  no other call, and the root context is as it was.
\<close>

theorem on_new_leader_only_logs_others:
  "OnNewLeader ident observed =
     (if observed = ident then ([], Inr ())
      else ([Log InfoLevel (''current leader: '' @ observed)], Inr ())) \<and>
   snd (OnNewLeader ident observed) = Inr () \<and>
   list_all (\<lambda>e. \<exists>m. e = Log InfoLevel m) (fst (OnNewLeader ident observed)) \<and>
   cancelled_after c (fst (OnNewLeader ident observed)) = c"
  by (simp add: OnNewLeader_def proc_defs cancelled_after_def)

theorem on_new_leader_only_logs_others_witness:
  "OnNewLeader ''pod-A'' ''pod-A'' = ([], Inr ()) \<and>
   OnNewLeader ''pod-A'' ''pod-B'' = ([Log InfoLevel ''current leader: pod-B''], Inr ()) \<and>
   cancelled_after False (fst (OnNewLeader ''pod-A'' ''pod-B'')) = False"
proof -
  have own: "OnNewLeader ''pod-A'' ''pod-A'' = ([], Inr ())"
    using on_new_leader_only_logs_others [of "''pod-A''" "''pod-A''" False]
    by simp
  have other: "OnNewLeader ''pod-A'' ''pod-B'' =
      ([Log InfoLevel ''current leader: pod-B''], Inr ())"
    using conjunct1 [OF on_new_leader_only_logs_others [of "''pod-A''" "''pod-B''" False]]
    by simp
  have live: "cancelled_after False (fst (OnNewLeader ''pod-A'' ''pod-B'')) = False"
    using on_new_leader_only_logs_others [of "''pod-A''" "''pod-B''" False]
    by blast
  from own other live show ?thesis by blast
qed

text \<open>
  Claim C2, as stated, fails: \<^verbatim>\<open>OnStoppedLeading\<close> cancels the root context the election
  runs under (lines 151 and 228), so after a loss the process is a candidate only to
  leave the loop. At the sample, after an acquisition and a loss the process has one
  episode and one stopped-leading call; a further grant of the lock starts no second
  episode: the count stays at one and the process has finished with status 0.
\<close>

theorem reacquisition_counterexample:
  "snd (main pod_A [AcquireGranted]) =
     Inr \<lparr>current = Leading, rootCancelled = False, started = 1, stopped = 0,
          exited = None\<rparr> \<and>
   snd (main pod_A [AcquireGranted, RenewFailed]) =
     Inr \<lparr>current = Candidate, rootCancelled = True, started = 1, stopped = 1,
          exited = None\<rparr> \<and>
   snd (main pod_A [AcquireGranted, RenewFailed, AcquireGranted]) =
     Inr \<lparr>current = Finished, rootCancelled = True, started = 1, stopped = 1,
          exited = Some 0\<rparr>"
proof -
  have body: "snd (OnStartedLeading pod_A ''openshift-marketplace'' ''pod-A'') = Inr ()"
    "CancelRoot \<notin> set (fst (OnStartedLeading pod_A ''openshift-marketplace'' ''pod-A''))"
    by (simp_all add: OnStartedLeading_def run_def proc_defs startReporting_def pod_A_def)
  have loop: "snd (main pod_A ss) = Inr (foldl (step pod_A election_A) initial ss)" for ss
    by (simp add: main_def snd_then_do snd_steps bootstrap_pod_A RunOrDie_def
        timingRejected_def election_A_def)
  show ?thesis
    using body
    by (simp add: loop step_def fire_def OnStoppedLeading_def proc_defs initial_def
        election_A_def cancelled_after_def)
qed

text \<open>
  Claim C2, amended. After a leadership loss the state machine fires the
  stopped-leading callback exactly once and returns to the Candidate state with the
  root context cancelled; from then on, whatever it is told, the stopped-leading count
  stays one higher, the episode count does not change and the process never leads
  again: the same process starts no fresh episode. While the root context is live, each
  acquisition by a candidate increments the episode count by exactly one.
\<close>

theorem leadership_loss_is_final:
  "current p = Leading \<Longrightarrow>
   stopped (step env el p RenewFailed) = stopped p + 1 \<and>
   started (step env el p RenewFailed) = started p \<and>
   current (step env el p RenewFailed) = Candidate \<and>
   rootCancelled (step env el p RenewFailed) \<and>
   (\<forall>ss. stopped (foldl (step env el) (step env el p RenewFailed) ss) = stopped p + 1 \<and>
         started (foldl (step env el) (step env el p RenewFailed) ss) = started p \<and>
         current (foldl (step env el) (step env el p RenewFailed) ss) \<noteq> Leading) \<and>
   (\<forall>q. current q = Candidate \<and> \<not> rootCancelled q \<longrightarrow>
         started (step env el q AcquireGranted) = started q + 1)"
proof -
  assume leading: "current p = Leading"
  let ?lost = "step env el p RenewFailed"
  have lost: "stopped ?lost = stopped p + 1" "started ?lost = started p"
    "current ?lost = Candidate" "rootCancelled ?lost"
    using leading by (simp_all add: step_def fire_OnStoppedLeading)
  have "current ?lost \<noteq> Leading"
    using lost(3) by simp
  from steps_when_cancelled[OF lost(4) this, of env el]
  have later: "\<forall>ss. stopped (foldl (step env el) ?lost ss) = stopped p + 1 \<and>
         started (foldl (step env el) ?lost ss) = started p \<and>
         current (foldl (step env el) ?lost ss) \<noteq> Leading"
    using lost(1,2) by simp
  have counted: "\<forall>q. current q = Candidate \<and> \<not> rootCancelled q \<longrightarrow>
         started (step env el q AcquireGranted) = started q + 1"
    by (simp add: step_def fire_def Let_def split: sum.splits outcome.splits)
  from lost later counted show ?thesis by blast
qed

text \<open>
  The amended claim at the sample: the process that leads after its first acquisition
  loses the lock; two further grants change neither count.
\<close>

theorem leadership_loss_is_final_witness:
  "current (step pod_A election_A initial AcquireGranted) = Leading \<and>
   started (step pod_A election_A initial AcquireGranted) = 1 \<and>
   stopped (foldl (step pod_A election_A)
              (step pod_A election_A (step pod_A election_A initial AcquireGranted) RenewFailed)
              [AcquireGranted, AcquireGranted]) = 1 \<and>
   started (foldl (step pod_A election_A)
              (step pod_A election_A (step pod_A election_A initial AcquireGranted) RenewFailed)
              [AcquireGranted, AcquireGranted]) = 1 \<and>
   current initial = Candidate \<and> \<not> rootCancelled initial"
proof -
  have body: "snd (OnStartedLeading pod_A ''openshift-marketplace'' ''pod-A'') = Inr ()"
    "CancelRoot \<notin> set (fst (OnStartedLeading pod_A ''openshift-marketplace'' ''pod-A''))"
    by (simp_all add: OnStartedLeading_def run_def proc_defs startReporting_def pod_A_def)
  have one: "step pod_A election_A initial AcquireGranted =
      \<lparr>current = Leading, rootCancelled = False, started = 1, stopped = 0, exited = None\<rparr>"
    using body
    by (simp add: step_def fire_def initial_def election_A_def cancelled_after_def)
  have leading: "current (step pod_A election_A initial AcquireGranted) = Leading"
    and count: "started (step pod_A election_A initial AcquireGranted) = 1"
      "stopped (step pod_A election_A initial AcquireGranted) = 0"
    by (simp_all add: one)
  have start: "current initial = Candidate" "\<not> rootCancelled initial"
    by (simp_all add: initial_def)
  from leadership_loss_is_final[OF leading, of pod_A election_A]
  have "stopped (foldl (step pod_A election_A)
              (step pod_A election_A (step pod_A election_A initial AcquireGranted) RenewFailed)
              [AcquireGranted, AcquireGranted]) =
          stopped (step pod_A election_A initial AcquireGranted) + 1"
    and "started (foldl (step pod_A election_A)
              (step pod_A election_A (step pod_A election_A initial AcquireGranted) RenewFailed)
              [AcquireGranted, AcquireGranted]) =
          started (step pod_A election_A initial AcquireGranted)"
    by blast+
  with leading count start show ?thesis by simp
qed

end
